theory Spec2Isabelle
  imports Main
begin

section \<open>Values exchanged with the identity provider\<close>

text \<open>
  A JSON document as Python's \<^verbatim>\<open>json\<close> module hands it to the program. Objects keep
  their pairs in order; numbers are integers.
\<close>

datatype json =
    JNull
  | JBool bool
  | JNum int
  | JStr string
  | JArr "json list"
  | JObj "(string \<times> json) list"

text \<open>
  A \<^verbatim>\<open>requests.Response\<close>: \<open>content\<close> is the body, as bytes; \<open>utf8_text\<close> is what
  \<^verbatim>\<open>response.content.decode("utf-8")\<close> returns, \<open>None\<close> when it raises
  \<^verbatim>\<open>UnicodeDecodeError\<close>; \<open>json_of\<close> is what \<^verbatim>\<open>response.json()\<close> returns, \<open>None\<close> when it
  raises \<^verbatim>\<open>JSONDecodeError\<close>.
\<close>

record response =
  status_code :: int
  content :: string
  utf8_text :: "string option"
  json_of :: "json option"

datatype reason = ReasonJson json | ReasonText string

text \<open>Every exception the modelled code raises or lets through.\<close>

datatype exn =
    KeycloakError int reason
  | UserNotFound int string
  | HTTPException int string
  | MandatoryActionException string
  | UpdateUserLocaleException
  | ConfigureTOTPException
  | VerifyEmailException
  | UpdatePasswordException
  | UpdateProfileException
  | ExpiredSignatureError
  | JWTError
  | JWTClaimsError
  | JSONDecodeError
  | UnicodeDecodeError
  | ValueError string
  | KeyError string
  | TypeError
  | AttributeError
  | IndexError
  | AssertionError
  | ValidationError
  | RequestException

subsection \<open>Python's view of a JSON value\<close>

text \<open>Truthiness, as \<^verbatim>\<open>if x:\<close> and \<^verbatim>\<open>not x\<close> evaluate it.\<close>

fun truthy :: "json \<Rightarrow> bool" where
  "truthy JNull = False"
| "truthy (JBool b) = b"
| "truthy (JNum n) = (n \<noteq> 0)"
| "truthy (JStr s) = (s \<noteq> [])"
| "truthy (JArr xs) = (xs \<noteq> [])"
| "truthy (JObj kvs) = (kvs \<noteq> [])"

text \<open>
  Iteration (\<^verbatim>\<open>for x in v\<close>): a list yields its elements, a dict its keys, a string its
  characters; anything else is not iterable.
\<close>

fun py_iter :: "json \<Rightarrow> exn + json list" where
  "py_iter (JArr xs) = Inr xs"
| "py_iter (JObj kvs) = Inr (map (\<lambda>kv. JStr (fst kv)) kvs)"
| "py_iter (JStr s) = Inr (map (\<lambda>c. JStr [c]) s)"
| "py_iter _ = Inl TypeError"

text \<open>\<^verbatim>\<open>len(v)\<close>.\<close>

fun py_len :: "json \<Rightarrow> exn + int" where
  "py_len (JArr xs) = Inr (int (length xs))"
| "py_len (JObj kvs) = Inr (int (length kvs))"
| "py_len (JStr s) = Inr (int (length s))"
| "py_len _ = Inl TypeError"

section \<open>The decorator \<^verbatim>\<open>result_or_error\<close>\<close>

text \<open>
  What a decorated function hands to the wrapper: a \<^verbatim>\<open>Response\<close>, or any other object
  (\<^verbatim>\<open>type(result) != Response\<close>).
\<close>

datatype 'a returned = Response response | Value 'a

text \<open>
  What the wrapper returns: the object itself, the parsed JSON, the decoded text, one
  instance of the response model, or a list of them.
\<close>

datatype ('a, 'm) unwrapped =
    Direct 'a
  | Payload json
  | Text string
  | Object 'm
  | Objects "'m list"

text \<open>
  A response model is the \<^verbatim>\<open>parse_obj\<close> of a pydantic class; \<open>None\<close> is its
  \<^verbatim>\<open>ValidationError\<close>.
  \<^verbatim>\<open>[response_model.parse_obj(entry) for entry in json_data]\<close>: the first entry that does
  not parse raises.
\<close>

fun parse_all :: "(json \<Rightarrow> 'm option) \<Rightarrow> json list \<Rightarrow> exn + 'm list" where
  "parse_all parse_obj [] = Inr []"
| "parse_all parse_obj (entry # entries) =
     (case parse_obj entry of
        None \<Rightarrow> Inl ValidationError
      | Some m \<Rightarrow> (case parse_all parse_obj entries of
                    Inl e \<Rightarrow> Inl e
                  | Inr ms \<Rightarrow> Inr (m # ms)))"

definition create_list :: "(json \<Rightarrow> 'm option) \<Rightarrow> json \<Rightarrow> exn + 'm list" where
  "create_list parse_obj json_data =
     (case py_iter json_data of
        Inl e \<Rightarrow> Inl e
      | Inr entries \<Rightarrow> parse_all parse_obj entries)"

text \<open>
  The wrapper, applied to the value the decorated function returned; the first argument is
  \<open>None\<close> when no response model is given.
  \<^verbatim>\<open>range(100, 299)\<close> holds 100 to 298. Where the body is not JSON the wrapper decodes it,
  and the decoding is strict: it raises on a body that is not UTF-8.
\<close>

definition result_or_error ::
  "(json \<Rightarrow> 'm option) option \<Rightarrow> bool \<Rightarrow> 'a returned \<Rightarrow> exn + ('a, 'm) unwrapped" where
  "result_or_error response_model is_list result =
     (case result of
        Value v \<Rightarrow> Inr (Direct v)
      | Response r \<Rightarrow>
          if 100 \<le> status_code r \<and> status_code r < 299 then
            (case response_model of
               None \<Rightarrow>
                 (case json_of r of
                    Some j \<Rightarrow> Inr (Payload j)
                  | None \<Rightarrow>
                      (case utf8_text r of
                         None \<Rightarrow> Inl UnicodeDecodeError
                       | Some body \<Rightarrow> Inr (Text body)))
             | Some parse_obj \<Rightarrow>
                 (case json_of r of
                    None \<Rightarrow> Inl JSONDecodeError
                  | Some j \<Rightarrow>
                      if is_list then
                        (case create_list parse_obj j of
                           Inl e \<Rightarrow> Inl e
                         | Inr ms \<Rightarrow> Inr (Objects ms))
                      else
                        (case parse_obj j of
                           None \<Rightarrow> Inl ValidationError
                         | Some m \<Rightarrow> Inr (Object m))))
          else
            (case json_of r of
               Some j \<Rightarrow> Inl (KeycloakError (status_code r) (ReasonJson j))
             | None \<Rightarrow>
                 (case utf8_text r of
                    None \<Rightarrow> Inl UnicodeDecodeError
                  | Some body \<Rightarrow> Inl (KeycloakError (status_code r) (ReasonText body)))))"

section \<open>Reading JSON values\<close>

text \<open>
  \<^verbatim>\<open>v[key]\<close> with a string key: only a dict can answer; a missing key is a
  \<^verbatim>\<open>KeyError\<close>.
\<close>

fun subscript :: "json \<Rightarrow> string \<Rightarrow> exn + json" where
  "subscript (JObj kvs) key =
     (case map_of kvs key of Some v \<Rightarrow> Inr v | None \<Rightarrow> Inl (KeyError key))"
| "subscript _ key = Inl TypeError"

text \<open>
  \<^verbatim>\<open>v.get(key, default)\<close>: only a dict has the method. Python's \<^verbatim>\<open>None\<close> is \<open>JNull\<close>.
\<close>

fun dict_get :: "json \<Rightarrow> string \<Rightarrow> json \<Rightarrow> exn + json" where
  "dict_get (JObj kvs) key dflt =
     (case map_of kvs key of Some v \<Rightarrow> Inr v | None \<Rightarrow> Inr dflt)"
| "dict_get _ key dflt = Inl AttributeError"

text \<open>\<^verbatim>\<open>v[0]\<close>.\<close>

fun first_item :: "json \<Rightarrow> exn + json" where
  "first_item (JArr []) = Inl IndexError"
| "first_item (JArr (x # xs)) = Inr x"
| "first_item (JStr []) = Inl IndexError"
| "first_item (JStr (c # cs)) = Inr (JStr [c])"
| "first_item (JObj kvs) = Inl (KeyError ''0'')"
| "first_item _ = Inl TypeError"

section \<open>The client instance and the outside world\<close>

text \<open>The options \<^verbatim>\<open>_decode_token\<close> passes to \<^verbatim>\<open>jwt.decode\<close>.\<close>

record jwt_options =
  verify_signature :: bool
  verify_aud :: bool
  verify_exp :: bool

text \<open>A decoded JWT: a dict of claims.\<close>

type_synonym claims = "(string \<times> json) list"

text \<open>
  What \<^verbatim>\<open>datetime.fromisoformat\<close> returns: a naive datetime, or one that carries a UTC
  offset (the second argument of \<open>Aware\<close>). Points in time are integers on one scale;
  \<^verbatim>\<open>datetime.utcnow()\<close> is naive.
\<close>

datatype pydatetime = Naive int | Aware int int

text \<open>\<^verbatim>\<open>a < b\<close> on datetimes: a naive and an aware one do not compare.\<close>

fun datetime_less :: "pydatetime \<Rightarrow> pydatetime \<Rightarrow> exn + bool" where
  "datetime_less (Naive a) (Naive b) = Inr (a < b)"
| "datetime_less (Aware a oa) (Aware b ob) = Inr (a - oa < b - ob)"
| "datetime_less _ _ = Inl TypeError"

datatype payload = Form "(string \<times> string) list" | Dumps "json option" | NoData

text \<open>
  One call of \<^verbatim>\<open>requests.request\<close>, \<^verbatim>\<open>requests.get\<close> or \<^verbatim>\<open>requests.post\<close>;
  \<open>http_method\<close> is its \<^verbatim>\<open>method\<close>.
\<close>

record request =
  http_method :: string
  url :: string
  headers :: "(string \<times> string) list"
  params :: "(string \<times> string) list"
  data :: payload

text \<open>
  \<^verbatim>\<open>KeycloakUser\<close>, with the fields the login flow reads; \<open>id_field\<close> is \<^verbatim>\<open>user.id\<close>.
\<close>

record keycloak_user =
  id_field :: string
  username :: string
  enabled :: bool
  requiredActions :: "string list"
  attributes :: "(string \<times> json) list option"

text \<open>\<^verbatim>\<open>OIDCUser\<close>: the validated token fields and the \<^verbatim>\<open>extra_fields\<close> dict.\<close>

record oidc_user =
  token_fields :: claims
  extra_fields :: "string \<rightharpoonup> json"

text \<open>
  Everything outside \<^verbatim>\<open>api.py\<close>, over a world \<open>'w\<close> that each interaction may change:
  the network (\<open>send\<close>, which may raise, a timeout for one), the JWT library
  \<^verbatim>\<open>jwt.decode\<close> (it reads the clock), the clock, and the pure library functions the
  code calls. \<open>KeycloakUser_init\<close>, \<open>OIDCUser_parse_obj\<close> and \<open>OIDCUser_roles\<close> are the
  pydantic classes of \<^verbatim>\<open>fastapi_keycloak.model\<close>, where \<open>None\<close> is pydantic's
  \<^verbatim>\<open>ValidationError\<close>; \<open>py_repr\<close> and \<open>exn_str\<close> are Python's \<^verbatim>\<open>str()\<close> of a non-string
  value and of an exception; \<open>int_of_str\<close> is \<^verbatim>\<open>int()\<close> of a string and \<open>fromisoformat\<close> is
  \<^verbatim>\<open>datetime.fromisoformat\<close>, \<open>None\<close> when they raise \<^verbatim>\<open>ValueError\<close>.
\<close>

record 'w env =
  send :: "request \<Rightarrow> 'w \<Rightarrow> (exn + response) \<times> 'w"
  jwt_decode :: "json \<Rightarrow> string \<Rightarrow> jwt_options \<Rightarrow> string option \<Rightarrow> 'w \<Rightarrow> (exn + claims) \<times> 'w"
  utcnow :: "'w \<Rightarrow> int \<times> 'w"
  fromisoformat :: "string \<Rightarrow> pydatetime option"
  int_of_str :: "string \<Rightarrow> int option"
  py_repr :: "json \<Rightarrow> string"
  exn_str :: "exn \<Rightarrow> string"
  KeycloakUser_init :: "json \<Rightarrow> keycloak_user option"
  OIDCUser_parse_obj :: "claims \<Rightarrow> oidc_user option"
  OIDCUser_roles :: "oidc_user \<Rightarrow> exn + string list"

text \<open>
  The instance \<^verbatim>\<open>self\<close> after its constructor has returned, together with the world and
  the requests sent so far. The constructor calls \<^verbatim>\<open>_get_admin_token\<close>, which reads
  \<^verbatim>\<open>token_uri\<close>, so that cached property is a field here; \<open>admin_token_field\<close> is
  \<^verbatim>\<open>_admin_token\<close>, \<open>public_key_cache\<close> the cached property \<^verbatim>\<open>public_key\<close>.
\<close>

record 'w keycloak =
  server_url :: string
  realm :: string
  client_id :: string
  client_secret :: string
  admin_client_id :: string
  admin_client_secret :: string
  scope :: string
  token_uri :: string
  admin_token_field :: json
  public_key_cache :: "string option"
  world :: 'w
  calls :: "request list"

text \<open>\<^verbatim>\<open>str(v)\<close> inside an f-string.\<close>

definition py_str :: "'w env \<Rightarrow> json \<Rightarrow> string" where
  "py_str E v = (case v of JStr s \<Rightarrow> s | _ \<Rightarrow> py_repr E v)"

text \<open>Sending a request changes the world and is recorded.\<close>

definition perform :: "'w env \<Rightarrow> request \<Rightarrow> 'w keycloak \<Rightarrow> (exn + response) \<times> 'w keycloak" where
  "perform E req s =
     (case send E req (world s) of
        (r, w') \<Rightarrow> (r, s\<lparr>world := w', calls := calls s @ [req]\<rparr>))"

text \<open>The endpoint URLs; \<open>admin_base_uri\<close> is \<^verbatim>\<open>_admin_uri\<close>.\<close>

definition realm_uri :: "'w keycloak \<Rightarrow> string" where
  "realm_uri s = server_url s @ ''/realms/'' @ realm s"

definition admin_base_uri :: "'w keycloak \<Rightarrow> string" where
  "admin_base_uri s = server_url s @ ''/admin/realms/'' @ realm s"

definition admin_uri :: "'w keycloak \<Rightarrow> string \<Rightarrow> string" where
  "admin_uri s resource = admin_base_uri s @ ''/'' @ resource"

definition users_uri :: "'w keycloak \<Rightarrow> string" where
  "users_uri s = admin_uri s ''users''"

section \<open>Public key and token verification\<close>

definition public_key :: "'w env \<Rightarrow> 'w keycloak \<Rightarrow> (exn + string) \<times> 'w keycloak" where
  "public_key E s =
     (case public_key_cache s of
        Some k \<Rightarrow> (Inr k, s)
      | None \<Rightarrow>
          (case perform E \<lparr>http_method = ''GET'', url = realm_uri s, headers = [], params = [],
                           data = NoData\<rparr> s of
             (Inl e, s1) \<Rightarrow> (Inl e, s1)
           | (Inr response, s1) \<Rightarrow>
               (case json_of response of
                  None \<Rightarrow> (Inl JSONDecodeError, s1)
                | Some j \<Rightarrow>
                    (case subscript j ''public_key'' of
                       Inl e \<Rightarrow> (Inl e, s1)
                     | Inr pk \<Rightarrow>
                         (let k = ''-----BEGIN PUBLIC KEY-----'' @ [CHR 0x0A] @ py_str E pk
                                  @ [CHR 0x0A] @ ''-----END PUBLIC KEY-----''
                          in (Inr k, s1\<lparr>public_key_cache := Some k\<rparr>))))))"

definition default_options :: "string option \<Rightarrow> jwt_options" where
  "default_options audience =
     \<lparr>verify_signature = True, verify_aud = (audience \<noteq> None), verify_exp = True\<rparr>"

definition decode_token ::
  "'w env \<Rightarrow> json \<Rightarrow> jwt_options option \<Rightarrow> string option \<Rightarrow> 'w keycloak
     \<Rightarrow> (exn + claims) \<times> 'w keycloak" where
  "decode_token E token options audience s =
     (let opts = (case options of None \<Rightarrow> default_options audience | Some given \<Rightarrow> given)
      in case public_key E s of
           (Inl e, s1) \<Rightarrow> (Inl e, s1)
         | (Inr key, s1) \<Rightarrow>
             (case jwt_decode E token key opts audience (world s1) of
                (r, w') \<Rightarrow> (r, s1\<lparr>world := w'\<rparr>)))"

text \<open>
  The three failures \<^verbatim>\<open>token_is_valid\<close> catches; in \<^verbatim>\<open>jose\<close> the other two are
  subclasses of \<^verbatim>\<open>JWTError\<close>.
\<close>

definition jwt_failure :: "exn \<Rightarrow> bool" where
  "jwt_failure e = (e = ExpiredSignatureError \<or> e = JWTError \<or> e = JWTClaimsError)"

definition token_is_valid ::
  "'w env \<Rightarrow> json \<Rightarrow> string option \<Rightarrow> 'w keycloak \<Rightarrow> (exn + bool) \<times> 'w keycloak" where
  "token_is_valid E token audience s =
     (case decode_token E token None audience s of
        (Inr decoded, s1) \<Rightarrow> (Inr True, s1)
      | (Inl e, s1) \<Rightarrow> if jwt_failure e then (Inr False, s1) else (Inl e, s1))"


section \<open>The admin token\<close>

text \<open>
  The setter of \<^verbatim>\<open>admin_token\<close>: decodes the value (no audience) and requires the
  \<^verbatim>\<open>realm-management\<close> and \<^verbatim>\<open>account\<close> entries of \<^verbatim>\<open>resource_access\<close>.
\<close>

definition claims_get :: "claims \<Rightarrow> string \<Rightarrow> json" where
  "claims_get decoded key = (case map_of decoded key of Some v \<Rightarrow> v | None \<Rightarrow> JNull)"

definition set_admin_token :: "'w env \<Rightarrow> json \<Rightarrow> 'w keycloak \<Rightarrow> (exn + unit) \<times> 'w keycloak" where
  "set_admin_token E val s =
     (case decode_token E val None None s of
        (Inl e, s1) \<Rightarrow> (Inl e, s1)
      | (Inr decoded_token, s1) \<Rightarrow>
          (case dict_get (claims_get decoded_token ''resource_access'') ''realm-management'' JNull of
             Inl e \<Rightarrow> (Inl e, s1)
           | Inr rm \<Rightarrow>
               if \<not> truthy rm then (Inl AssertionError, s1)
               else
                 (case dict_get (claims_get decoded_token ''resource_access'') ''account'' JNull of
                    Inl e \<Rightarrow> (Inl e, s1)
                  | Inr acc \<Rightarrow>
                      if \<not> truthy acc then (Inl AssertionError, s1)
                      else (Inr (), s1\<lparr>admin_token_field := val\<rparr>))))"

definition admin_grant_request :: "'w keycloak \<Rightarrow> request" where
  "admin_grant_request s =
     \<lparr>http_method = ''POST'', url = token_uri s,
      headers = [(''Content-Type'', ''application/x-www-form-urlencoded'')],
      params = [],
      data = Form [(''client_id'', admin_client_id s),
                   (''client_secret'', admin_client_secret s),
                   (''grant_type'', ''client_credentials'')]\<rparr>"

text \<open>
  \<^verbatim>\<open>_get_admin_token\<close>. The \<^verbatim>\<open>try\<close> block holds the call of the setter too, so a
  \<^verbatim>\<open>JSONDecodeError\<close> or \<^verbatim>\<open>KeyError\<close> raised inside the setter is turned into a
  \<^verbatim>\<open>KeycloakError\<close> as well.
\<close>

definition get_admin_token :: "'w env \<Rightarrow> 'w keycloak \<Rightarrow> (exn + unit) \<times> 'w keycloak" where
  "get_admin_token E s =
     (case perform E (admin_grant_request s) s of
        (Inl e, s1) \<Rightarrow> (Inl e, s1)
      | (Inr response, s1) \<Rightarrow>
          (let attempt =
                 (case json_of response of
                    None \<Rightarrow> (Inl JSONDecodeError, s1)
                  | Some j \<Rightarrow>
                      (case subscript j ''access_token'' of
                         Inl e \<Rightarrow> (Inl e, s1)
                       | Inr tok \<Rightarrow> set_admin_token E tok s1))
           in case attempt of
                (Inl JSONDecodeError, s2) \<Rightarrow>
                  (case utf8_text response of
                     None \<Rightarrow> (Inl UnicodeDecodeError, s2)
                   | Some body \<Rightarrow>
                       (Inl (KeycloakError (status_code response) (ReasonText body)), s2))
              | (Inl (KeyError k), s2) \<Rightarrow>
                  (case json_of response of
                     None \<Rightarrow> (Inl JSONDecodeError, s2)
                   | Some j \<Rightarrow>
                       (Inl (KeycloakError 403
                          (ReasonText (''The response did not contain an access_token: ''
                                       @ py_str E j))), s2))
              | (r, s2) \<Rightarrow> (r, s2)))"

text \<open>
  The property \<^verbatim>\<open>admin_token\<close>. It calls itself after every re-acquisition, with nothing
  that bounds the calls: \<open>None\<close> is the recursion that never ends (the interpreter's limit
  on the depth of recursion is not modelled).
\<close>

partial_function (option) admin_token ::
  "'w env \<Rightarrow> 'w keycloak \<Rightarrow> ((exn + json) \<times> 'w keycloak) option" where
  "admin_token E s =
     (case token_is_valid E (admin_token_field s) None s of
        (Inl e, s1) \<Rightarrow> Some (Inl e, s1)
      | (Inr valid, s1) \<Rightarrow>
          if valid then Some (Inr (admin_token_field s1), s1)
          else
            (case get_admin_token E s1 of
               (Inl e, s2) \<Rightarrow> Some (Inl e, s2)
             | (Inr u, s2) \<Rightarrow> admin_token E s2))"

declare admin_token.simps [code]

text \<open>\<^verbatim>\<open>_admin_request\<close>: the header is built first, so the admin token is read first.\<close>

definition admin_request ::
  "'w env \<Rightarrow> string \<Rightarrow> string \<Rightarrow> json option \<Rightarrow> 'w keycloak
     \<Rightarrow> ((exn + response) \<times> 'w keycloak) option" where
  "admin_request E u m payload s =
     (case admin_token E s of
        None \<Rightarrow> None
      | Some (Inl e, s1) \<Rightarrow> Some (Inl e, s1)
      | Some (Inr tok, s1) \<Rightarrow>
          Some (perform E \<lparr>http_method = m, url = u,
                           headers = [(''Content-Type'', ''application/json''),
                                      (''Authorization'', ''Bearer '' @ py_str E tok)],
                           params = [],
                           data = Dumps payload\<rparr> s1))"


section \<open>User lookup\<close>

text \<open>\<^verbatim>\<open>query.split("&")\<close>: the pieces between the separators, at least one.\<close>

fun split_acc :: "char \<Rightarrow> string \<Rightarrow> string \<Rightarrow> string list" where
  "split_acc sep cur [] = [rev cur]"
| "split_acc sep cur (c # cs) =
     (if c = sep then rev cur # split_acc sep [] cs else split_acc sep (c # cur) cs)"

definition str_split :: "char \<Rightarrow> string \<Rightarrow> string list" where
  "str_split sep text = split_acc sep [] text"

text \<open>\<^verbatim>\<open>pair.partition("=")\<close>: what is before the first separator, and what is after it.\<close>

definition partition_key :: "char \<Rightarrow> string \<Rightarrow> string" where
  "partition_key sep text = takeWhile (\<lambda>c. c \<noteq> sep) text"

definition partition_value :: "char \<Rightarrow> string \<Rightarrow> string" where
  "partition_value sep text = drop 1 (dropWhile (\<lambda>c. c \<noteq> sep) text)"

definition ALLOWED_QUERY_FIELDS :: "string list" where
  "ALLOWED_QUERY_FIELDS = [''email'', ''username'', ''firstName'', ''lastName'']"

fun validate_pairs :: "string list \<Rightarrow> exn + unit" where
  "validate_pairs [] = Inr ()"
| "validate_pairs (pair # pairs) =
     (if partition_key CHR ''='' pair \<notin> set ALLOWED_QUERY_FIELDS
         \<or> partition_value CHR ''='' pair = []
      then Inl (ValueError (''Invalid query field or value: '' @ partition_key CHR ''='' pair
                            @ ''='' @ partition_value CHR ''='' pair))
      else validate_pairs pairs)"

definition validate_query :: "string \<Rightarrow> exn + string" where
  "validate_query query =
     (case validate_pairs (str_split CHR ''&'' query) of
        Inl e \<Rightarrow> Inl e
      | Inr u \<Rightarrow> Inr query)"

text \<open>\<^verbatim>\<open>KeycloakUser(**v)\<close> and \<^verbatim>\<open>KeycloakUser.parse_obj(v)\<close>: \<open>v\<close> has to be a dict.\<close>

definition KeycloakUser_kwargs :: "'w env \<Rightarrow> json \<Rightarrow> exn + keycloak_user" where
  "KeycloakUser_kwargs E v =
     (case v of
        JObj kvs \<Rightarrow>
          (case KeycloakUser_init E v of None \<Rightarrow> Inl ValidationError | Some u \<Rightarrow> Inr u)
      | _ \<Rightarrow> Inl TypeError)"

definition KeycloakUser_parse_obj :: "'w env \<Rightarrow> json \<Rightarrow> keycloak_user option" where
  "KeycloakUser_parse_obj E v =
     (case v of JObj kvs \<Rightarrow> KeycloakUser_init E v | _ \<Rightarrow> None)"

text \<open>A decorated method: its body runs, then the wrapper sees what it returned.\<close>

definition decorated ::
  "(json \<Rightarrow> 'm option) option \<Rightarrow> bool \<Rightarrow> ((exn + 'a returned) \<times> 's) option
     \<Rightarrow> ((exn + ('a, 'm) unwrapped) \<times> 's) option" where
  "decorated response_model is_list outcome =
     (case outcome of
        None \<Rightarrow> None
      | Some (Inl e, s) \<Rightarrow> Some (Inl e, s)
      | Some (Inr result, s) \<Rightarrow> Some (result_or_error response_model is_list result, s))"

definition get_user_body ::
  "'w env \<Rightarrow> string option \<Rightarrow> string \<Rightarrow> 'w keycloak
     \<Rightarrow> ((exn + keycloak_user returned) \<times> 'w keycloak) option" where
  "get_user_body E user_id query s =
     (case user_id of
        None \<Rightarrow>
          (case validate_query query of
             Inl e \<Rightarrow> Some (Inl e, s)
           | Inr q \<Rightarrow>
               (case admin_request E (users_uri s @ ''?'' @ query) ''GET'' None s of
                  None \<Rightarrow> None
                | Some (Inl e, s1) \<Rightarrow> Some (Inl e, s1)
                | Some (Inr response, s1) \<Rightarrow>
                    (case json_of response of
                       None \<Rightarrow> Some (Inl JSONDecodeError, s1)
                     | Some j \<Rightarrow>
                         if \<not> truthy j then
                           Some (Inl (UserNotFound 404
                                   (''User query with filters of ['' @ query
                                    @ ''] did no match any users'')), s1)
                         else
                           (case first_item j of
                              Inl e \<Rightarrow> Some (Inl e, s1)
                            | Inr u \<Rightarrow>
                                (case KeycloakUser_kwargs E u of
                                   Inl e \<Rightarrow> Some (Inl e, s1)
                                 | Inr user \<Rightarrow> Some (Inr (Value user), s1))))))
      | Some uid \<Rightarrow>
          (case admin_request E (users_uri s @ ''/'' @ uid) ''GET'' None s of
             None \<Rightarrow> None
           | Some (Inl e, s1) \<Rightarrow> Some (Inl e, s1)
           | Some (Inr response, s1) \<Rightarrow>
               if status_code response = 404 then
                 Some (Inl (UserNotFound 404
                         (''User with user_id['' @ uid @ ''] was not found'')), s1)
               else
                 (case json_of response of
                    None \<Rightarrow> Some (Inl JSONDecodeError, s1)
                  | Some j \<Rightarrow>
                      (case KeycloakUser_kwargs E j of
                         Inl e \<Rightarrow> Some (Inl e, s1)
                       | Inr user \<Rightarrow> Some (Inr (Value user), s1)))))"

definition get_user ::
  "'w env \<Rightarrow> string option \<Rightarrow> string \<Rightarrow> 'w keycloak
     \<Rightarrow> ((exn + (keycloak_user, keycloak_user) unwrapped) \<times> 'w keycloak) option" where
  "get_user E user_id query s =
     decorated (Some (KeycloakUser_parse_obj E)) False (get_user_body E user_id query s)"

section \<open>Login\<close>

fun find_disabled :: "json list \<Rightarrow> exn + bool" where
  "find_disabled [] = Inr False"
| "find_disabled (event # events) =
     (case dict_get event ''error'' JNull of
        Inl e \<Rightarrow> Inl e
      | Inr v \<Rightarrow> if v = JStr ''user_temporarily_disabled'' then Inr True
                 else find_disabled events)"

definition events_request :: "'w env \<Rightarrow> 'w keycloak \<Rightarrow> json \<Rightarrow> string \<Rightarrow> request" where
  "events_request E s tok user_id =
     \<lparr>http_method = ''GET'', url = admin_base_uri s @ ''/events'',
      headers = [(''Authorization'', ''Bearer '' @ py_str E tok)],
      params = [(''type'', ''LOGIN_ERROR''), (''userId'', user_id)],
      data = NoData\<rparr>"

definition is_user_temporarily_disabled_body ::
  "'w env \<Rightarrow> string \<Rightarrow> 'w keycloak \<Rightarrow> ((exn + bool returned) \<times> 'w keycloak) option" where
  "is_user_temporarily_disabled_body E user_id s =
     (case admin_token E s of
        None \<Rightarrow> None
      | Some (Inl e, s1) \<Rightarrow> Some (Inl e, s1)
      | Some (Inr tok, s1) \<Rightarrow>
          (case perform E (events_request E s tok user_id) s1 of
             (Inl e, s2) \<Rightarrow> Some (Inl e, s2)
           | (Inr response, s2) \<Rightarrow>
               if status_code response \<noteq> 200 then
                 (case utf8_text response of
                    None \<Rightarrow> Some (Inl UnicodeDecodeError, s2)
                  | Some body \<Rightarrow>
                      Some (Inl (KeycloakError (status_code response)
                              (ReasonText (''Error al consultar eventos de Keycloak: ''
                                           @ body))), s2))
               else
                 (case json_of response of
                    None \<Rightarrow> Some (Inl JSONDecodeError, s2)
                  | Some events \<Rightarrow>
                      (case py_iter events of
                         Inl e \<Rightarrow> Some (Inl e, s2)
                       | Inr evs \<Rightarrow>
                           (case find_disabled evs of
                              Inl e \<Rightarrow> Some (Inl e, s2)
                            | Inr b \<Rightarrow> Some (Inr (Value b), s2))))))"

definition is_user_temporarily_disabled ::
  "'w env \<Rightarrow> string \<Rightarrow> 'w keycloak
     \<Rightarrow> ((exn + (bool, unit) unwrapped) \<times> 'w keycloak) option" where
  "is_user_temporarily_disabled E user_id s =
     decorated None False (is_user_temporarily_disabled_body E user_id s)"

text \<open>
  \<^verbatim>\<open>get_active_sessions\<close> and \<^verbatim>\<open>get_max_concurrent_sessions\<close> turn every exception of
  their body into a \<^verbatim>\<open>KeycloakError\<close> with status 400.
\<close>

definition get_active_sessions ::
  "'w env \<Rightarrow> string \<Rightarrow> 'w keycloak \<Rightarrow> ((exn + json) \<times> 'w keycloak) option" where
  "get_active_sessions E user_id s =
     (case admin_request E (users_uri s @ ''/'' @ user_id @ ''/sessions'') ''GET'' None s of
        None \<Rightarrow> None
      | Some (r, s1) \<Rightarrow>
          (let attempt =
                 (case r of
                    Inl e \<Rightarrow> Inl e
                  | Inr response \<Rightarrow>
                      (case json_of response of
                         None \<Rightarrow> Inl JSONDecodeError
                       | Some j \<Rightarrow> Inr j))
           in case attempt of
                Inl e \<Rightarrow>
                  Some (Inl (KeycloakError 400
                          (ReasonText (''Error retrieving active sessions: '' @ exn_str E e))), s1)
              | Inr j \<Rightarrow> Some (Inr j, s1)))"

text \<open>\<^verbatim>\<open>int(v)\<close>.\<close>

definition py_int :: "'w env \<Rightarrow> json \<Rightarrow> exn + int" where
  "py_int E v =
     (case v of
        JNum n \<Rightarrow> Inr n
      | JBool b \<Rightarrow> Inr (if b then 1 else 0)
      | JStr text \<Rightarrow>
          (case int_of_str E text of
             Some n \<Rightarrow> Inr n
           | None \<Rightarrow> Inl (ValueError (''invalid literal for int() with base 10: ''
                                      @ py_repr E (JStr text))))
      | _ \<Rightarrow> Inl TypeError)"

definition get_max_concurrent_sessions ::
  "'w env \<Rightarrow> 'w keycloak \<Rightarrow> ((exn + int) \<times> 'w keycloak) option" where
  "get_max_concurrent_sessions E s =
     (case admin_request E (admin_base_uri s) ''GET'' None s of
        None \<Rightarrow> None
      | Some (r, s1) \<Rightarrow>
          (let attempt =
                 (case r of
                    Inl e \<Rightarrow> Inl e
                  | Inr response \<Rightarrow>
                      (case json_of response of
                         None \<Rightarrow> Inl JSONDecodeError
                       | Some realm_settings \<Rightarrow>
                           (case dict_get realm_settings ''attributes'' (JObj []) of
                              Inl e \<Rightarrow> Inl e
                            | Inr attrs \<Rightarrow>
                                (case dict_get attrs ''max-sessions'' (JNum 0) of
                                   Inl e \<Rightarrow> Inl e
                                 | Inr v \<Rightarrow> py_int E v))))
           in case attempt of
                Inl e \<Rightarrow>
                  Some (Inl (KeycloakError 400
                          (ReasonText (''Error retrieving max concurrent sessions setting: ''
                                       @ exn_str E e))), s1)
              | Inr n \<Rightarrow> Some (Inr n, s1)))"


text \<open>Reading an attribute of what \<^verbatim>\<open>get_user\<close> returned: only a user object has them.\<close>

definition as_user :: "(keycloak_user, keycloak_user) unwrapped \<Rightarrow> exn + keycloak_user" where
  "as_user got =
     (case got of
        Direct u \<Rightarrow> Inr u
      | Object u \<Rightarrow> Inr u
      | _ \<Rightarrow> Inl AttributeError)"

text \<open>Truthiness of what a decorated method without a response model returned.\<close>

definition unwrapped_truthy :: "(bool, unit) unwrapped \<Rightarrow> bool" where
  "unwrapped_truthy got =
     (case got of
        Direct b \<Rightarrow> b
      | Payload j \<Rightarrow> truthy j
      | Text t \<Rightarrow> t \<noteq> []
      | Object m \<Rightarrow> True
      | Objects ms \<Rightarrow> ms \<noteq> [])"

text \<open>\<^verbatim>\<open>text.rstrip("Z")\<close> removes every trailing \<open>Z\<close>.\<close>

definition rstrip :: "char \<Rightarrow> string \<Rightarrow> string" where
  "rstrip ch text = rev (dropWhile (\<lambda>c. c = ch) (rev text))"

text \<open>
  The value \<^verbatim>\<open>user_login\<close> reads as the expiration date: \<^verbatim>\<open>None\<close> unless the
  attributes are a non-empty dict, then \<^verbatim>\<open>attributes.get("account_expiration")\<close>.
\<close>

definition account_expiration :: "keycloak_user \<Rightarrow> json" where
  "account_expiration user =
     (case attributes user of
        None \<Rightarrow> JNull
      | Some kvs \<Rightarrow>
          if kvs \<noteq> [] then
            (case map_of kvs ''account_expiration'' of Some v \<Rightarrow> v | None \<Rightarrow> JNull)
          else JNull)"

text \<open>
  The part of \<^verbatim>\<open>user_login\<close> under \<^verbatim>\<open># Validate account expiration\<close>. Only
  \<^verbatim>\<open>ValueError\<close> is caught.
\<close>

definition validate_account_expiration ::
  "'w env \<Rightarrow> keycloak_user \<Rightarrow> 'w keycloak \<Rightarrow> (exn + unit) \<times> 'w keycloak" where
  "validate_account_expiration E user s =
     (let expiration_date = account_expiration user
      in if \<not> truthy expiration_date then (Inr (), s)
         else
           (case (case expiration_date of
                    JArr xs \<Rightarrow> first_item (JArr xs)
                  | v \<Rightarrow> Inr v) of
              Inl e \<Rightarrow> (Inl e, s)
            | Inr (JStr text) \<Rightarrow>
                (case fromisoformat E (rstrip CHR ''Z'' text) of
                   None \<Rightarrow>
                     (Inl (HTTPException 400 ''Invalid account expiration date format.''), s)
                 | Some parsed \<Rightarrow>
                     (case utcnow E (world s) of
                        (now, w') \<Rightarrow>
                          (case datetime_less parsed (Naive now) of
                             Inl e \<Rightarrow> (Inl e, s\<lparr>world := w'\<rparr>)
                           | Inr expired \<Rightarrow>
                               if expired then
                                 (Inl (HTTPException 403
                                    ''The account has expired. Please contact the administrator.''),
                                  s\<lparr>world := w'\<rparr>)
                               else (Inr (), s\<lparr>world := w'\<rparr>))))
            | Inr v \<Rightarrow> (Inl AttributeError, s)))"

text \<open>
  \<^verbatim>\<open>max_sessions > 0 and len(active_sessions) >= max_sessions\<close>: the length is taken only
  when the cap is positive.
\<close>

definition session_limit_reached :: "int \<Rightarrow> json \<Rightarrow> exn + bool" where
  "session_limit_reached max_sessions active_sessions =
     (if max_sessions > 0 then
        (case py_len active_sessions of
           Inl e \<Rightarrow> Inl e
         | Inr n \<Rightarrow> Inr (n \<ge> max_sessions))
      else Inr False)"

definition password_grant_request :: "'w keycloak \<Rightarrow> string \<Rightarrow> string \<Rightarrow> request" where
  "password_grant_request s uname password =
     \<lparr>http_method = ''POST'', url = token_uri s,
      headers = [(''Content-Type'', ''application/x-www-form-urlencoded'')],
      params = [],
      data = Form [(''client_id'', client_id s),
                   (''client_secret'', client_secret s),
                   (''username'', uname),
                   (''password'', password),
                   (''grant_type'', ''password''),
                   (''scope'', scope s)]\<rparr>"

text \<open>
  The dict of exceptions keyed by the required action, with its default.
\<close>

definition required_action_exception :: "string \<Rightarrow> exn" where
  "required_action_exception reason =
     (if reason = ''update_user_locale'' then UpdateUserLocaleException
      else if reason = ''CONFIGURE_TOTP'' then ConfigureTOTPException
      else if reason = ''VERIFY_EMAIL'' then VerifyEmailException
      else if reason = ''UPDATE_PASSWORD'' then UpdatePasswordException
      else if reason = ''UPDATE_PROFILE'' then UpdateProfileException
      else MandatoryActionException
             (''This user cannot log in until the required action is resolved: ''
              @ reason @ ''.''))"

record login_tokens =
  access_token :: json
  refresh_token :: json
  id_token :: json
  expires_in :: json
  refresh_expires_in :: json

text \<open>
  The part of \<^verbatim>\<open>user_login\<close> from \<^verbatim>\<open># Validate the authentication result\<close> to its
  end, on the response of the password grant.
\<close>

definition authentication_result :: "keycloak_user \<Rightarrow> response \<Rightarrow> exn + login_tokens" where
  "authentication_result user response =
     (if status_code response = 401 then Inl (HTTPException 401 ''Invalid credentials.'')
      else
        (case (if status_code response = 400 then requiredActions user else []) of
           reason # others \<Rightarrow> Inl (required_action_exception reason)
         | [] \<Rightarrow>
             (case json_of response of
                None \<Rightarrow>
                  Inl (KeycloakError (status_code response)
                         (ReasonText ''Failed to parse token response.''))
              | Some token_data \<Rightarrow>
                  (case dict_get token_data ''access_token'' JNull of
                     Inl e \<Rightarrow> Inl e
                   | Inr a \<Rightarrow>
                  (case dict_get token_data ''refresh_token'' JNull of
                     Inl e \<Rightarrow> Inl e
                   | Inr r \<Rightarrow>
                  (case dict_get token_data ''id_token'' JNull of
                     Inl e \<Rightarrow> Inl e
                   | Inr i \<Rightarrow>
                  (case dict_get token_data ''expires_in'' JNull of
                     Inl e \<Rightarrow> Inl e
                   | Inr x \<Rightarrow>
                  (case dict_get token_data ''refresh_expires_in'' JNull of
                     Inl e \<Rightarrow> Inl e
                   | Inr rx \<Rightarrow>
                       Inr \<lparr>access_token = a, refresh_token = r, id_token = i,
                            expires_in = x, refresh_expires_in = rx\<rparr>))))))))"

text \<open>
  The part of \<^verbatim>\<open>user_login\<close> before \<^verbatim>\<open># Attempt to log in\<close>: the user is fetched,
  then the lockout, the expiration and the session limit are checked, in this order. It
  yields the user record it fetched.
\<close>

definition login_prechecks ::
  "'w env \<Rightarrow> string \<Rightarrow> 'w keycloak \<Rightarrow> ((exn + keycloak_user) \<times> 'w keycloak) option" where
  "login_prechecks E uname s =
     (case get_user E None (''username='' @ uname) s of
        None \<Rightarrow> None
      | Some (Inl e, s1) \<Rightarrow> Some (Inl e, s1)
      | Some (Inr got, s1) \<Rightarrow>
      (case as_user got of
        Inl e \<Rightarrow> Some (Inl e, s1)
      | Inr user \<Rightarrow>
      (case is_user_temporarily_disabled E (id_field user) s1 of
        None \<Rightarrow> None
      | Some (Inl e, s2) \<Rightarrow> Some (Inl e, s2)
      | Some (Inr disabled, s2) \<Rightarrow>
          if unwrapped_truthy disabled then
            Some (Inl (HTTPException 403
              ''The user is temporarily disabled due to too many failed login attempts.''), s2)
          else
      (case validate_account_expiration E user s2 of
        (Inl e, s3) \<Rightarrow> Some (Inl e, s3)
      | (Inr u, s3) \<Rightarrow>
      (case get_active_sessions E (id_field user) s3 of
        None \<Rightarrow> None
      | Some (Inl e, s4) \<Rightarrow> Some (Inl e, s4)
      | Some (Inr active_sessions, s4) \<Rightarrow>
      (case get_max_concurrent_sessions E s4 of
        None \<Rightarrow> None
      | Some (Inl e, s5) \<Rightarrow> Some (Inl e, s5)
      | Some (Inr max_sessions, s5) \<Rightarrow>
      (case session_limit_reached max_sessions active_sessions of
        Inl e \<Rightarrow> Some (Inl e, s5)
      | Inr reached \<Rightarrow>
          if reached then
            Some (Inl (HTTPException 403
              ''Concurrent session limit reached. Please close a session and try again.''), s5)
          else Some (Inr user, s5))))))))"

definition user_login ::
  "'w env \<Rightarrow> string \<Rightarrow> string \<Rightarrow> 'w keycloak
     \<Rightarrow> ((exn + login_tokens) \<times> 'w keycloak) option" where
  "user_login E uname password s =
     (case login_prechecks E uname s of
        None \<Rightarrow> None
      | Some (Inl e, s5) \<Rightarrow> Some (Inl e, s5)
      | Some (Inr user, s5) \<Rightarrow>
          (case perform E (password_grant_request s5 uname password) s5 of
             (Inl e, s6) \<Rightarrow> Some (Inl e, s6)
           | (Inr response, s6) \<Rightarrow> Some (authentication_result user response, s6)))"

text \<open>
  The grant exchanges among the requests sent so far: the posts of a form whose
  \<^verbatim>\<open>grant_type\<close> is \<^verbatim>\<open>password\<close>.
\<close>

definition is_password_grant :: "request \<Rightarrow> bool" where
  "is_password_grant req =
     (case data req of
        Form form \<Rightarrow> map_of form ''grant_type'' = Some ''password''
      | _ \<Rightarrow> False)"

definition grant_exchanges :: "'w keycloak \<Rightarrow> request list" where
  "grant_exchanges s = filter is_password_grant (calls s)"

section \<open>The authorization guard\<close>

text \<open>
  The loop over the required roles. \<^verbatim>\<open>user.roles\<close> is a property, read at every
  iteration.
\<close>

fun check_roles :: "(exn + string list) \<Rightarrow> string list \<Rightarrow> exn + unit" where
  "check_roles user_roles [] = Inr ()"
| "check_roles user_roles (role # rest) =
     (case user_roles of
        Inl e \<Rightarrow> Inl e
      | Inr held \<Rightarrow>
          if role \<notin> set held then
            Inl (HTTPException 403
                   (''Role \"'' @ role @ ''\" is required to perform this action''))
          else check_roles user_roles rest)"

text \<open>\<^verbatim>\<open>user.extra_fields[field] = decoded_token.get(field, None)\<close>, for each field.\<close>

fun copy_extra_fields :: "claims \<Rightarrow> string list \<Rightarrow> oidc_user \<Rightarrow> oidc_user" where
  "copy_extra_fields decoded_token [] user = user"
| "copy_extra_fields decoded_token (field # rest) user =
     copy_extra_fields decoded_token rest
       (user\<lparr>extra_fields := (extra_fields user)(field \<mapsto> claims_get decoded_token field)\<rparr>)"

text \<open>
  The dependency \<^verbatim>\<open>current_user\<close> that \<^verbatim>\<open>get_current_user(required_roles, extra_fields)\<close>
  returns. An argument left out is \<open>None\<close>; \<^verbatim>\<open>if required_roles:\<close> skips \<open>None\<close> and the
  empty list.
\<close>

definition current_user ::
  "'w env \<Rightarrow> string list option \<Rightarrow> string list option \<Rightarrow> string \<Rightarrow> 'w keycloak
     \<Rightarrow> (exn + oidc_user) \<times> 'w keycloak" where
  "current_user E required_roles extra token s =
     (case decode_token E (JStr token) None (Some ''account'') s of
        (Inl e, s1) \<Rightarrow>
          if e = ExpiredSignatureError then
            (Inl (HTTPException 401 ''Access token has expired.''), s1)
          else (Inl e, s1)
      | (Inr decoded_token, s1) \<Rightarrow>
          (case OIDCUser_parse_obj E decoded_token of
             None \<Rightarrow> (Inl ValidationError, s1)
           | Some user \<Rightarrow>
               (case check_roles (OIDCUser_roles E user)
                       (case required_roles of None \<Rightarrow> [] | Some roles \<Rightarrow> roles) of
                  Inl e \<Rightarrow> (Inl e, s1)
                | Inr u \<Rightarrow>
                    (Inr (copy_extra_fields decoded_token
                            (case extra of None \<Rightarrow> [] | Some names \<Rightarrow> names) user), s1))))"

section \<open>A sample deployment\<close>

text \<open>
  A small identity provider on which the statements below are run: one user, \<open>alice\<close>,
  whose record, login events, sessions and realm settings are given, as is the answer to
  the password grant. The user document the provider sends is cut down to its \<open>id\<close>, and
  the record the model class builds from it is the one given. The world is the clock, in
  seconds; the admin token \<open>A\<close> and the user token \<open>U\<close> verify under the key \<open>K\<close>.
\<close>

definition sample_keycloak :: "int \<Rightarrow> int keycloak" where
  "sample_keycloak now =
     \<lparr>server_url = ''kc'', realm = ''r'', client_id = ''app'', client_secret = ''cs'',
      admin_client_id = ''admin-cli'', admin_client_secret = ''as'', scope = ''openid'',
      token_uri = ''kc/token'', admin_token_field = JStr ''A'',
      public_key_cache = Some ''K'', world = now, calls = []\<rparr>"

definition admin_claims :: claims where
  "admin_claims =
     [(''resource_access'',
       JObj [(''realm-management'', JObj [(''roles'', JArr [JStr ''manage-users''])]),
             (''account'', JObj [(''roles'', JArr [JStr ''manage-account''])])])]"

definition user_claims :: claims where
  "user_claims =
     [(''sub'', JStr ''u1''),
      (''aud'', JStr ''account''),
      (''email'', JStr ''alice@example.org''),
      (''realm_access'', JObj [(''roles'', JArr [JStr ''reader'', JStr ''editor''])])]"

definition sample_roles :: "oidc_user \<Rightarrow> exn + string list" where
  "sample_roles user =
     (case claims_get (token_fields user) ''realm_access'' of
        JObj kvs \<Rightarrow>
          (case map_of kvs ''roles'' of
             Some (JArr rs) \<Rightarrow> Inr (map (\<lambda>r. case r of JStr name \<Rightarrow> name | _ \<Rightarrow> []) rs)
           | _ \<Rightarrow> Inl (KeycloakError 404 (ReasonText ''no roles'')))
      | _ \<Rightarrow> Inl (KeycloakError 404 (ReasonText ''no roles'')))"

definition sample_env ::
  "keycloak_user \<Rightarrow> response \<Rightarrow> response \<Rightarrow> response \<Rightarrow> response \<Rightarrow> int env" where
  "sample_env alice events sessions settings grant =
     \<lparr>send = (\<lambda>req now.
         if url req = ''kc/token'' then
           (if is_password_grant req then (Inr grant, now)
            else (Inr \<lparr>status_code = 200, content = ''{\"access_token\":\"A\"}'',
                       utf8_text = Some ''{\"access_token\":\"A\"}'',
                       json_of = Some (JObj [(''access_token'', JStr ''A'')])\<rparr>, now))
         else if url req = ''kc/admin/realms/r/users?username=alice'' then
           (Inr \<lparr>status_code = 200, content = ''[{\"id\":\"u1\"}]'',
                 utf8_text = Some ''[{\"id\":\"u1\"}]'',
                 json_of = Some (JArr [JObj [(''id'', JStr ''u1'')]])\<rparr>, now)
         else if url req = ''kc/admin/realms/r/events'' then (Inr events, now)
         else if url req = ''kc/admin/realms/r/users/u1/sessions'' then (Inr sessions, now)
         else if url req = ''kc/admin/realms/r'' then (Inr settings, now)
         else (Inl RequestException, now)),
      jwt_decode = (\<lambda>token key opts aud now.
         if key = ''K'' \<and> token = JStr ''A'' then (Inr admin_claims, now)
         else if key = ''K'' \<and> token = JStr ''U'' then (Inr user_claims, now)
         else (Inl JWTError, now)),
      utcnow = (\<lambda>now. (now, now)),
      fromisoformat = (\<lambda>text.
         if text = ''2020-01-01T00:00:00'' then Some (Naive 1577836800)
         else if text = ''2020-01-01T00:00:00+00:00'' then Some (Aware 1577836800 0)
         else None),
      int_of_str = (\<lambda>text.
         if text = ''0'' then Some 0 else if text = ''2'' then Some 2 else None),
      py_repr = (\<lambda>v. []),
      exn_str = (\<lambda>e. []),
      KeycloakUser_init = (\<lambda>v. if v = JObj [(''id'', JStr ''u1'')] then Some alice else None),
      OIDCUser_parse_obj = (\<lambda>decoded. Some \<lparr>token_fields = decoded, extra_fields = Map.empty\<rparr>),
      OIDCUser_roles = sample_roles\<rparr>"

text \<open>Answers of the sample provider.\<close>

definition ok_response :: "string \<Rightarrow> json \<Rightarrow> response" where
  "ok_response text j =
     \<lparr>status_code = 200, content = text, utf8_text = Some text, json_of = Some j\<rparr>"

definition no_events :: response where
  "no_events = ok_response ''[]'' (JArr [])"

definition lockout_events :: response where
  "lockout_events =
     ok_response ''[{\"error\":\"user_temporarily_disabled\"}]''
       (JArr [JObj [(''error'', JStr ''user_temporarily_disabled'')]])"

definition two_sessions :: response where
  "two_sessions =
     ok_response ''[{\"id\":\"s1\"},{\"id\":\"s2\"}]''
       (JArr [JObj [(''id'', JStr ''s1'')], JObj [(''id'', JStr ''s2'')]])"

definition max_sessions_setting :: "string \<Rightarrow> response" where
  "max_sessions_setting cap =
     ok_response (''{\"attributes\":{\"max-sessions\":\"'' @ cap @ ''\"}}'')
       (JObj [(''attributes'', JObj [(''max-sessions'', JStr cap)])])"

definition tokens_granted :: response where
  "tokens_granted =
     ok_response ''{\"access_token\":\"U\",\"expires_in\":300}''
       (JObj [(''access_token'', JStr ''U''), (''expires_in'', JNum 300)])"

definition alice_with :: "string list \<Rightarrow> (string \<times> json) list option \<Rightarrow> keycloak_user" where
  "alice_with actions attrs =
     \<lparr>id_field = ''u1'', username = ''alice'', enabled = True,
      requiredActions = actions, attributes = attrs\<rparr>"

text \<open>
  A provider whose admin tokens are short-lived: a token is a row of marks, as many as the
  second at which it expires; the token issued at second \<open>t\<close> lives \<open>life t\<close> seconds;
  each verification takes one second and fails when the expiry is before the clock
  (\<^verbatim>\<open>exp < now\<close>, the comparison of the JWT library), so that a token whose expiry is
  the current second still verifies. The instance starts at second 1 with a token that
  expired at second 0.
\<close>

definition expiring_keycloak :: "nat keycloak" where
  "expiring_keycloak =
     \<lparr>server_url = ''kc'', realm = ''r'', client_id = ''app'', client_secret = ''cs'',
      admin_client_id = ''admin-cli'', admin_client_secret = ''as'', scope = ''openid'',
      token_uri = ''kc/token'', admin_token_field = JStr [],
      public_key_cache = Some ''K'', world = 1, calls = []\<rparr>"

definition expiring_env :: "(nat \<Rightarrow> nat) \<Rightarrow> nat env" where
  "expiring_env life =
     \<lparr>send = (\<lambda>req now.
         (Inr \<lparr>status_code = 200,
               content = ''{\"access_token\":\"'' @ replicate (now + life now) CHR ''I''
                         @ ''\"}'',
               utf8_text = Some (''{\"access_token\":\"'' @ replicate (now + life now) CHR ''I''
                               @ ''\"}''),
               json_of = Some (JObj [(''access_token'',
                                      JStr (replicate (now + life now) CHR ''I''))])\<rparr>, now)),
      jwt_decode = (\<lambda>token key opts aud now.
         (case token of
            JStr marks \<Rightarrow>
              if length marks < now then (Inl ExpiredSignatureError, Suc now)
              else (Inr admin_claims, Suc now)
          | _ \<Rightarrow> (Inl JWTError, Suc now))),
      utcnow = (\<lambda>now. (int now, now)),
      fromisoformat = (\<lambda>text. None),
      int_of_str = (\<lambda>text. None),
      py_repr = (\<lambda>v. []),
      exn_str = (\<lambda>e. []),
      KeycloakUser_init = (\<lambda>v. None),
      OIDCUser_parse_obj = (\<lambda>decoded. None),
      OIDCUser_roles = (\<lambda>user. Inr [])\<rparr>"

text \<open>The sample instance after it has sent the given requests, and those requests.\<close>

definition sample_after :: "int \<Rightarrow> request list \<Rightarrow> int keycloak" where
  "sample_after now sent = (sample_keycloak now)\<lparr>calls := sent\<rparr>"

definition admin_get :: "string \<Rightarrow> request" where
  "admin_get u =
     \<lparr>http_method = ''GET'', url = u,
      headers = [(''Content-Type'', ''application/json''), (''Authorization'', ''Bearer A'')],
      params = [], data = Dumps None\<rparr>"

definition events_get :: request where
  "events_get =
     \<lparr>http_method = ''GET'', url = ''kc/admin/realms/r/events'',
      headers = [(''Authorization'', ''Bearer A'')],
      params = [(''type'', ''LOGIN_ERROR''), (''userId'', ''u1'')],
      data = NoData\<rparr>"

definition user_get :: request where
  "user_get = admin_get ''kc/admin/realms/r/users?username=alice''"

definition sessions_get :: request where
  "sessions_get = admin_get ''kc/admin/realms/r/users/u1/sessions''"

definition realm_get :: request where
  "realm_get = admin_get ''kc/admin/realms/r''"

definition precheck_requests :: "request list" where
  "precheck_requests = [user_get, events_get, sessions_get, realm_get]"

definition setup_required :: response where
  "setup_required =
     \<lparr>status_code = 400,
      content = ''{\"error\":\"invalid_grant\",\"error_description\":\"Account is not fully set up\"}'',
      utf8_text = Some
        ''{\"error\":\"invalid_grant\",\"error_description\":\"Account is not fully set up\"}'',
      json_of = Some (JObj [(''error'', JStr ''invalid_grant''),
                            (''error_description'', JStr ''Account is not fully set up'')])\<rparr>"

definition server_error :: response where
  "server_error =
     \<lparr>status_code = 500, content = ''{\"error\":\"unknown_error\"}'',
      utf8_text = Some ''{\"error\":\"unknown_error\"}'',
      json_of = Some (JObj [(''error'', JStr ''unknown_error'')])\<rparr>"

definition account_disabled :: response where
  "account_disabled =
     \<lparr>status_code = 400,
      content = ''{\"error\":\"invalid_grant\",\"error_description\":\"Account disabled\"}'',
      utf8_text = Some ''{\"error\":\"invalid_grant\",\"error_description\":\"Account disabled\"}'',
      json_of = Some (JObj [(''error'', JStr ''invalid_grant''),
                            (''error_description'', JStr ''Account disabled'')])\<rparr>"

definition no_tokens :: login_tokens where
  "no_tokens =
     \<lparr>access_token = JNull, refresh_token = JNull, id_token = JNull, expires_in = JNull,
      refresh_expires_in = JNull\<rparr>"

text \<open>Token lifetimes of the short-lived provider: none at all, or none before second 4.\<close>

definition no_life :: "nat \<Rightarrow> nat" where
  "no_life t = 0"

definition late_life :: "nat \<Rightarrow> nat" where
  "late_life t = (if t < 4 then 0 else 10)"

text \<open>
  An answer of a gateway in front of the provider: status 502 and an error page in
  ISO-8859-1, \<^verbatim>\<open>Passerelle indisponible, r\<close> followed by the byte \<open>0xE9\<close> and
  \<^verbatim>\<open>essayez\<close>. The body is not JSON and is not UTF-8. The same body under the status
  of a successful answer.
\<close>

definition bad_gateway :: response where
  "bad_gateway =
     \<lparr>status_code = 502,
      content = ''Passerelle indisponible, r'' @ [CHR 0xE9] @ ''essayez'',
      utf8_text = None, json_of = None\<rparr>"

definition latin1_page :: response where
  "latin1_page =
     \<lparr>status_code = 200,
      content = ''Passerelle indisponible, r'' @ [CHR 0xE9] @ ''essayez'',
      utf8_text = None, json_of = None\<rparr>"

section \<open>Facts about the model\<close>

subsection \<open>The decorator\<close>

lemma py_iter_error: "py_iter j = Inl e \<Longrightarrow> e = TypeError"
  by (cases j) auto

lemma parse_all_error: "parse_all p js = Inl e \<Longrightarrow> e = ValidationError"
  by (induction js arbitrary: e) (auto split: option.splits sum.splits)

lemma create_list_error: "create_list p j = Inl e \<Longrightarrow> e = TypeError \<or> e = ValidationError"
  by (auto simp: create_list_def split: sum.splits dest: py_iter_error parse_all_error)

lemma result_or_error_Value: "result_or_error rm il (Value v) = Inr (Direct v)"
  by (simp add: result_or_error_def)

text \<open>
  On a response whose body is JSON or decodes as UTF-8, the wrapper takes the status as
  successful exactly when it is between 100 and 298: then it never raises
  \<^verbatim>\<open>KeycloakError\<close>, and without a response model it returns the parsed JSON, or the
  decoded text when the body is not JSON. Every other status, 299 and above in
  particular, raises \<^verbatim>\<open>KeycloakError\<close> with that status and the body.
\<close>

lemma result_or_error_decodable_body:
  fixes rm :: "(json \<Rightarrow> 'm option) option"
  assumes "json_of r \<noteq> None \<or> utf8_text r \<noteq> None"
  shows
  "(100 \<le> status_code r \<and> status_code r \<le> 298 \<longrightarrow>
      (\<forall>c b. (result_or_error rm il (Response r) :: exn + ('a, 'm) unwrapped)
               \<noteq> Inl (KeycloakError c b))
      \<and> (result_or_error (None :: (json \<Rightarrow> 'm option) option) il (Response r)
            :: exn + ('a, 'm) unwrapped)
          = Inr (case json_of r of Some j \<Rightarrow> Payload j | None \<Rightarrow> Text (the (utf8_text r))))
   \<and> (\<not> (100 \<le> status_code r \<and> status_code r \<le> 298) \<longrightarrow>
        (result_or_error rm il (Response r) :: exn + ('a, 'm) unwrapped)
          = Inl (KeycloakError (status_code r)
                  (case json_of r of Some j \<Rightarrow> ReasonJson j
                   | None \<Rightarrow> ReasonText (the (utf8_text r)))))"
  using assms
  by (auto simp: result_or_error_def split: option.splits sum.splits dest: create_list_error)

text \<open>
  Claim C10, at a failing input. The gateway answers with status 502 and a body that is
  neither JSON nor UTF-8: the wrapper raises \<^verbatim>\<open>UnicodeDecodeError\<close>, not
  \<^verbatim>\<open>KeycloakError\<close>, and neither the status nor the body reaches the caller. Under a
  status between 100 and 298 the same body is raised as well, not returned.
\<close>

theorem result_or_error_undecodable_body:
  "(result_or_error (None :: (json \<Rightarrow> unit option) option) False (Response bad_gateway)
      :: exn + (unit, unit) unwrapped)
   = Inl UnicodeDecodeError
   \<and> (result_or_error (None :: (json \<Rightarrow> unit option) option) False (Response latin1_page)
      :: exn + (unit, unit) unwrapped)
   = Inl UnicodeDecodeError"
  by (simp add: result_or_error_def bad_gateway_def latin1_page_def)

subsection \<open>The sample deployment, step by step\<close>

lemmas uri_defs = users_uri_def admin_uri_def admin_base_uri_def realm_uri_def

lemmas token_defs = token_is_valid_def decode_token_def public_key_def default_options_def
  jwt_failure_def

lemma ok_response_sel:
  "status_code (ok_response text j) = 200"
  "content (ok_response text j) = text"
  "utf8_text (ok_response text j) = Some text"
  "json_of (ok_response text j) = Some j"
  by (simp_all add: ok_response_def)

lemma sample_after_Nil: "sample_after now [] = sample_keycloak now"
  by (simp add: sample_after_def sample_keycloak_def)

lemma sample_world: "(sample_after now sent)\<lparr>world := now\<rparr> = sample_after now sent"
  by (simp add: sample_after_def sample_keycloak_def)

lemma sample_uris:
  "users_uri (sample_after now sent) = ''kc/admin/realms/r/users''"
  "admin_base_uri (sample_after now sent) = ''kc/admin/realms/r''"
  by (simp_all add: uri_defs sample_after_def sample_keycloak_def)

lemma sample_send:
  "send (sample_env a ev se st g) user_get now
   = (Inr \<lparr>status_code = 200, content = ''[{\"id\":\"u1\"}]'',
           utf8_text = Some ''[{\"id\":\"u1\"}]'',
           json_of = Some (JArr [JObj [(''id'', JStr ''u1'')]])\<rparr>, now)"
  "send (sample_env a ev se st g) events_get now = (Inr ev, now)"
  "send (sample_env a ev se st g) sessions_get now
   = (Inr se, now)"
  "send (sample_env a ev se st g) realm_get now = (Inr st, now)"
  by (simp_all add: sample_env_def admin_get_def events_get_def user_get_def sessions_get_def
                 realm_get_def)

lemma sample_send_world: "snd (send (sample_env a ev se st g) req now) = now"
  by (simp add: sample_env_def)

lemma perform_alt:
  "perform E req s
   = (fst (send E req (world s)),
      s\<lparr>world := snd (send E req (world s)), calls := calls s @ [req]\<rparr>)"
  by (simp add: perform_def split: prod.splits)

lemma perform_calls: "perform E req s = (r, s') \<Longrightarrow> calls s' = calls s @ [req]"
  by (auto simp: perform_def split: prod.splits)

lemma sample_perform:
  "perform (sample_env a ev se st g) req (sample_after now sent)
   = (fst (send (sample_env a ev se st g) req now), sample_after now (sent @ [req]))"
  by (simp add: perform_alt sample_after_def sample_keycloak_def sample_send_world)

lemma sample_admin_token:
  "admin_token_field s = JStr ''A'' \<Longrightarrow> public_key_cache s = Some ''K'' \<Longrightarrow>
   admin_token (sample_env a ev se st g) s = Some (Inr (JStr ''A''), s)"
  by (subst admin_token.simps) (simp add: token_defs sample_env_def)

lemma sample_token:
  "admin_token (sample_env a ev se st g) (sample_after now sent)
   = Some (Inr (JStr ''A''), sample_after now sent)"
  by (rule sample_admin_token) (simp_all add: sample_after_def sample_keycloak_def)

lemma sample_admin_request:
  "admin_request (sample_env a ev se st g) u ''GET'' None (sample_after now sent)
   = Some (fst (send (sample_env a ev se st g) (admin_get u) now),
           sample_after now (sent @ [admin_get u]))"
  by (simp add: admin_request_def sample_token py_str_def admin_get_def [symmetric]
           sample_perform)

lemma sample_get_user:
  "get_user (sample_env a ev se st g) None ''username=alice'' (sample_after now sent)
   = Some (Inr (Direct a),
           sample_after now (sent @ [user_get]))"
proof -
  have v: "validate_query ''username=alice'' = Inr ''username=alice''"
    by (simp add: validate_query_def str_split_def partition_key_def partition_value_def
             ALLOWED_QUERY_FIELDS_def)
  have k: "KeycloakUser_kwargs (sample_env a ev se st g) (JObj [(''id'', JStr ''u1'')]) = Inr a"
    by (simp add: KeycloakUser_kwargs_def sample_env_def)
  show ?thesis
    by (simp add: get_user_def get_user_body_def v k sample_uris sample_admin_request
             user_get_def [symmetric] sample_send decorated_def result_or_error_Value)
qed

lemma sample_events:
  "find_disabled evs = Inr b \<Longrightarrow>
   is_user_temporarily_disabled (sample_env a (ok_response text (JArr evs)) se st g) ''u1''
     (sample_after now sent)
   = Some (Inr (Direct b), sample_after now (sent @ [events_get]))"
proof -
  let ?E = "sample_env a (ok_response text (JArr evs)) se st g"
  have r: "events_request ?E (sample_after now sent) (JStr ''A'') ''u1'' = events_get"
    by (simp add: events_request_def events_get_def sample_uris py_str_def)
  assume "find_disabled evs = Inr b"
  then show ?thesis
    by (simp add: is_user_temporarily_disabled_def is_user_temporarily_disabled_body_def
             sample_token r sample_perform sample_send decorated_def result_or_error_Value
             ok_response_sel)
qed

lemma sample_sessions:
  "json_of se = Some j \<Longrightarrow>
   get_active_sessions (sample_env a ev se st g) ''u1'' (sample_after now sent)
   = Some (Inr j, sample_after now (sent @ [sessions_get]))"
  by (simp add: get_active_sessions_def sample_uris sample_admin_request
           sessions_get_def [symmetric] sample_send)

lemma sample_int_of_str:
  "int_of_str (sample_env a ev se st g) ''2'' = Some 2"
  "int_of_str (sample_env a ev se st g) ''0'' = Some 0"
  by (simp_all add: sample_env_def)

lemma sample_max_sessions:
  "int_of_str (sample_env a ev se (max_sessions_setting cap) g) cap = Some m \<Longrightarrow>
   get_max_concurrent_sessions (sample_env a ev se (max_sessions_setting cap) g)
     (sample_after now sent)
   = Some (Inr m, sample_after now (sent @ [realm_get]))"
  by (simp add: get_max_concurrent_sessions_def sample_uris sample_admin_request
           realm_get_def [symmetric] sample_send py_int_def max_sessions_setting_def
           ok_response_sel)

lemma sample_fromisoformat:
  "fromisoformat (sample_env a ev se st g) ''2020-01-01T00:00:00'' = Some (Naive 1577836800)"
  "fromisoformat (sample_env a ev se st g) ''2020-01-01T00:00:00+00:00''
     = Some (Aware 1577836800 0)"
  "fromisoformat (sample_env a ev se st g) [] = None"
  by (simp_all add: sample_env_def)

lemma sample_utcnow:
  "utcnow (sample_env a ev se st g) (world (sample_after now sent)) = (now, now)"
  by (simp add: sample_env_def sample_after_def sample_keycloak_def)

lemma sample_expired:
  "1577836800 < now \<Longrightarrow>
   validate_account_expiration (sample_env a ev se st g)
     (alice_with actions (Some [(''account_expiration'', JArr [JStr ''2020-01-01T00:00:00Z''])]))
     (sample_after now sent)
   = (Inl (HTTPException 403 ''The account has expired. Please contact the administrator.''),
      sample_after now sent)"
  by (simp add: validate_account_expiration_def account_expiration_def alice_with_def rstrip_def
           sample_fromisoformat sample_utcnow sample_world)

lemma sample_not_expiring:
  "validate_account_expiration E (alice_with actions None) s = (Inr (), s)"
  by (simp add: validate_account_expiration_def account_expiration_def alice_with_def)

lemma find_disabled_samples:
  "find_disabled [JObj [(''error'', JStr ''user_temporarily_disabled'')]] = Inr True"
  "find_disabled [] = Inr False"
  by simp_all

lemma as_user_Direct: "as_user (Direct u) = Inr u"
  by (simp add: as_user_def)

lemma id_alice: "id_field (alice_with actions attrs) = ''u1''"
  by (simp add: alice_with_def)

lemma sample_no_grants: "grant_exchanges (sample_keycloak now) = []"
  by (simp add: grant_exchanges_def sample_keycloak_def)

lemma sample_grant_request:
  "password_grant_request (sample_after now sent) uname password
   = password_grant_request (sample_keycloak now) uname password"
  by (simp add: password_grant_request_def sample_after_def sample_keycloak_def)

lemma sample_grant:
  "perform (sample_env a ev se st g)
     (password_grant_request (sample_after now sent) uname password) (sample_after now sent)
   = (Inr g, sample_after now (sent @ [password_grant_request (sample_keycloak now) uname password]))"
proof -
  have "send (sample_env a ev se st g) (password_grant_request (sample_keycloak now) uname password)
          now = (Inr g, now)"
    by (simp add: sample_env_def password_grant_request_def sample_keycloak_def
             is_password_grant_def)
  then show ?thesis
    by (simp add: sample_grant_request sample_perform)
qed

lemma sample_prechecks:
  assumes "find_disabled evs = Inr False"
    and "id_field a = ''u1''"
    and "validate_account_expiration (sample_env a (ok_response text (JArr evs)) se
             (max_sessions_setting cap) g) a (sample_after now [user_get, events_get])
         = (Inr (), sample_after now [user_get, events_get])"
    and "json_of se = Some j"
    and "int_of_str (sample_env a (ok_response text (JArr evs)) se (max_sessions_setting cap) g)
           cap = Some m"
    and "session_limit_reached m j = Inr False"
  shows "login_prechecks (sample_env a (ok_response text (JArr evs)) se (max_sessions_setting cap) g)
           ''alice'' (sample_keycloak now)
         = Some (Inr a, sample_after now precheck_requests)"
proof -
  let ?E = "sample_env a (ok_response text (JArr evs)) se (max_sessions_setting cap) g"
  have 1: "get_user ?E None ''username=alice'' (sample_keycloak now)
           = Some (Inr (Direct a), sample_after now [user_get])"
    using sample_get_user [of a _ se _ g now "[]"]
    by (simp add: sample_after_Nil precheck_requests_def)
  have 2: "is_user_temporarily_disabled ?E ''u1'' (sample_after now [user_get])
           = Some (Inr (Direct False), sample_after now [user_get, events_get])"
    using sample_events [OF assms(1), of a _ se _ g now "[user_get]"]
    by (simp add: precheck_requests_def)
  have 4: "get_active_sessions ?E ''u1'' (sample_after now [user_get, events_get])
           = Some (Inr j, sample_after now [user_get, events_get, sessions_get])"
    using sample_sessions [OF assms(4), of a _ _ g now "[user_get, events_get]"]
    by (simp add: precheck_requests_def)
  have 5: "get_max_concurrent_sessions ?E (sample_after now [user_get, events_get, sessions_get])
           = Some (Inr m, sample_after now precheck_requests)"
    using sample_max_sessions [OF assms(5), of now "[user_get, events_get, sessions_get]"]
    by (simp add: precheck_requests_def)
  show ?thesis
    by (simp add: login_prechecks_def 1 as_user_Direct assms(2) 2 unwrapped_truthy_def
             assms(3) 4 5 assms(6))
qed

lemma sample_steps:
  assumes "find_disabled evs = Inr b"
    and "json_of se = Some j"
    and "int_of_str (sample_env a (ok_response body (JArr evs)) se (max_sessions_setting cap) g)
           cap = Some m"
  shows "get_user (sample_env a (ok_response body (JArr evs)) se (max_sessions_setting cap) g)
           None (''username='' @ ''alice'') (sample_keycloak now)
         = Some (Inr (Direct a), sample_after now [user_get])"
    and "is_user_temporarily_disabled
           (sample_env a (ok_response body (JArr evs)) se (max_sessions_setting cap) g)
           ''u1'' (sample_after now [user_get])
         = Some (Inr (Direct b), sample_after now [user_get, events_get])"
    and "get_active_sessions
           (sample_env a (ok_response body (JArr evs)) se (max_sessions_setting cap) g)
           ''u1'' (sample_after now [user_get, events_get])
         = Some (Inr j, sample_after now [user_get, events_get, sessions_get])"
    and "get_max_concurrent_sessions
           (sample_env a (ok_response body (JArr evs)) se (max_sessions_setting cap) g)
           (sample_after now [user_get, events_get, sessions_get])
         = Some (Inr m, sample_after now precheck_requests)"
proof -
  show "get_user (sample_env a (ok_response body (JArr evs)) se (max_sessions_setting cap) g)
           None (''username='' @ ''alice'') (sample_keycloak now)
         = Some (Inr (Direct a), sample_after now [user_get])"
    using sample_get_user [of a _ se _ g now "[]"]
    by (simp add: sample_after_Nil)
  show "is_user_temporarily_disabled
           (sample_env a (ok_response body (JArr evs)) se (max_sessions_setting cap) g)
           ''u1'' (sample_after now [user_get])
         = Some (Inr (Direct b), sample_after now [user_get, events_get])"
    using sample_events [OF assms(1), of a _ se _ g now "[user_get]"]
    by simp
  show "get_active_sessions
           (sample_env a (ok_response body (JArr evs)) se (max_sessions_setting cap) g)
           ''u1'' (sample_after now [user_get, events_get])
         = Some (Inr j, sample_after now [user_get, events_get, sessions_get])"
    using sample_sessions [OF assms(2), of a _ _ g now "[user_get, events_get]"]
    by simp
  show "get_max_concurrent_sessions
           (sample_env a (ok_response body (JArr evs)) se (max_sessions_setting cap) g)
           (sample_after now [user_get, events_get, sessions_get])
         = Some (Inr m, sample_after now precheck_requests)"
    using sample_max_sessions [OF assms(3), of now "[user_get, events_get, sessions_get]"]
    by (simp add: precheck_requests_def)
qed

lemma two_sessions_json:
  "json_of two_sessions = Some (JArr [JObj [(''id'', JStr ''s1'')], JObj [(''id'', JStr ''s2'')]])"
  by (simp add: two_sessions_def ok_response_sel)

lemma sample_after_calls: "calls (sample_after now sent) = sent"
  by (simp add: sample_after_def)

lemma sample_passing:
  "find_disabled evs = Inr False \<Longrightarrow>
   login_prechecks
     (sample_env (alice_with actions None) (ok_response body (JArr evs)) two_sessions
        (max_sessions_setting ''0'') g)
     ''alice'' (sample_keycloak now)
   = Some (Inr (alice_with actions None), sample_after now precheck_requests)"
  by (rule sample_prechecks [where m = 0])
     (simp_all add: id_alice sample_not_expiring two_sessions_json sample_int_of_str
               session_limit_reached_def)

subsection \<open>The authorization guard\<close>

lemma check_roles_ok: "set R \<subseteq> set T \<Longrightarrow> check_roles (Inr T) R = Inr ()"
  by (induction R) auto

lemma check_roles_first_missing:
  "set before \<subseteq> set T \<Longrightarrow> role \<notin> set T \<Longrightarrow>
   check_roles (Inr T) (before @ role # after)
     = Inl (HTTPException 403 (''Role \"'' @ role @ ''\" is required to perform this action''))"
  by (induction before) auto

lemma check_roles_Inr: "check_roles (Inr T) R = Inr u \<Longrightarrow> set R \<subseteq> set T"
  by (induction R) (auto split: if_splits)

text \<open>
  Claim C1. Let the token decode, under the audience \<open>account\<close>, to claims from which the
  user object is built, and let \<open>T\<close> be the roles of that user. For every list \<open>R\<close> of
  required roles the dependency returns the user view if and only if every role of \<open>R\<close> is
  in \<open>T\<close>; otherwise it raises the 403 that names the first role of \<open>R\<close>, in list order,
  that is not in \<open>T\<close>, whatever roles follow it in \<open>R\<close>.
\<close>

theorem current_user_required_roles:
  assumes "decode_token E (JStr token) None (Some ''account'') s = (Inr decoded, s1)"
    and "OIDCUser_parse_obj E decoded = Some user"
    and "OIDCUser_roles E user = Inr T"
  shows "((\<exists>view. current_user E (Some R) extra token s = (Inr view, s1)) \<longleftrightarrow> set R \<subseteq> set T)
    \<and> (set R \<subseteq> set T \<longrightarrow>
         current_user E (Some R) extra token s
           = (Inr (copy_extra_fields decoded
                     (case extra of None \<Rightarrow> [] | Some names \<Rightarrow> names) user), s1))
    \<and> (\<forall>before role after.
          R = before @ role # after \<and> set before \<subseteq> set T \<and> role \<notin> set T \<longrightarrow>
          current_user E (Some R) extra token s
            = (Inl (HTTPException 403
                     (''Role \"'' @ role @ ''\" is required to perform this action'')), s1))"
  using assms
  by (auto simp: current_user_def check_roles_ok check_roles_first_missing
           split: sum.splits dest: check_roles_Inr)

lemma sample_decode_user:
  "decode_token (sample_env a ev se st g) (JStr ''U'') None (Some ''account'')
     (sample_keycloak now)
   = (Inr user_claims, sample_keycloak now)"
  by (simp add: decode_token_def public_key_def sample_env_def sample_keycloak_def)

lemma sample_user_roles:
  "OIDCUser_roles (sample_env a ev se st g)
     \<lparr>token_fields = user_claims, extra_fields = Map.empty\<rparr>
   = Inr [''reader'', ''editor'']"
  by (simp add: sample_env_def sample_roles_def user_claims_def claims_get_def)

lemma sample_parse_obj:
  "OIDCUser_parse_obj (sample_env a ev se st g) user_claims
   = Some \<lparr>token_fields = user_claims, extra_fields = Map.empty\<rparr>"
  by (simp add: sample_env_def)

theorem current_user_required_roles_witness:
  "current_user
     (sample_env (alice_with [] None) no_events two_sessions (max_sessions_setting ''2'')
        tokens_granted)
     (Some [''editor'', ''reader'']) None ''U'' (sample_keycloak 1600000000)
   = (Inr \<lparr>token_fields = user_claims, extra_fields = Map.empty\<rparr>, sample_keycloak 1600000000)
   \<and> current_user
     (sample_env (alice_with [] None) no_events two_sessions (max_sessions_setting ''2'')
        tokens_granted)
     (Some [''reader'', ''admin'', ''owner'']) None ''U'' (sample_keycloak 1600000000)
   = (Inl (HTTPException 403 ''Role \"admin\" is required to perform this action''),
      sample_keycloak 1600000000)"
proof -
  let ?E = "sample_env (alice_with [] None) no_events two_sessions (max_sessions_setting ''2'')
              tokens_granted"
  let ?view = "\<lparr>token_fields = user_claims, extra_fields = Map.empty\<rparr>"
  have d: "decode_token ?E (JStr ''U'') None (Some ''account'') (sample_keycloak 1600000000)
           = (Inr user_claims, sample_keycloak 1600000000)"
    by (rule sample_decode_user)
  have p: "OIDCUser_parse_obj ?E user_claims = Some ?view"
    by (rule sample_parse_obj)
  have r: "OIDCUser_roles ?E ?view = Inr [''reader'', ''editor'']"
    by (rule sample_user_roles)
  have granted: "current_user ?E (Some [''editor'', ''reader'']) None ''U''
                   (sample_keycloak 1600000000)
                 = (Inr ?view, sample_keycloak 1600000000)"
    using current_user_required_roles [OF d p r, where R = "[''editor'', ''reader'']"
                                         and extra = None]
    by simp
  have "[''reader'', ''admin'', ''owner''] = [''reader''] @ ''admin'' # [''owner'']
        \<and> set [''reader''] \<subseteq> set [''reader'', ''editor'']
        \<and> ''admin'' \<notin> set [''reader'', ''editor''] \<longrightarrow>
        current_user ?E (Some [''reader'', ''admin'', ''owner'']) None ''U''
          (sample_keycloak 1600000000)
        = (Inl (HTTPException 403
                 (''Role \"'' @ ''admin'' @ ''\" is required to perform this action'')),
           sample_keycloak 1600000000)"
    using current_user_required_roles [OF d p r, where R = "[''reader'', ''admin'', ''owner'']"
                                         and extra = None]
    by blast
  with granted show ?thesis by simp
qed

subsection \<open>Token verification\<close>







subsection \<open>User lookup\<close>

lemma validate_pairs_Inr:
  "(validate_pairs ps = Inr ()) =
   (\<forall>pair\<in>set ps. partition_key CHR ''='' pair \<in> set ALLOWED_QUERY_FIELDS
                  \<and> partition_value CHR ''='' pair \<noteq> [])"
  by (induction ps) auto

lemma validate_pairs_Inl: "validate_pairs ps = Inl e \<Longrightarrow> \<exists>msg. e = ValueError msg"
  by (induction ps) (auto split: if_splits)

lemma get_user_rejected:
  assumes "\<not> (\<forall>pair\<in>set (str_split CHR ''&'' query).
              partition_key CHR ''='' pair \<in> set ALLOWED_QUERY_FIELDS
              \<and> partition_value CHR ''='' pair \<noteq> [])"
  shows "\<exists>msg. get_user E None query s = Some (Inl (ValueError msg), s)"
proof -
  from assms have "validate_pairs (str_split CHR ''&'' query) \<noteq> Inr ()"
    by (simp only: validate_pairs_Inr not_False_eq_True)
  then obtain e where "validate_pairs (str_split CHR ''&'' query) = Inl e"
    by (cases "validate_pairs (str_split CHR ''&'' query)") auto
  moreover from this obtain msg where "e = ValueError msg"
    using validate_pairs_Inl by blast
  ultimately show ?thesis
    by (simp add: get_user_def get_user_body_def validate_query_def decorated_def)
qed

text \<open>
  Claim C9. A lookup by query (\<^verbatim>\<open>get_user\<close> without a user id) whose query string has,
  among its pairs separated by \<open>&\<close>, one whose key is not \<open>email\<close>, \<open>username\<close>,
  \<open>firstName\<close> or \<open>lastName\<close>, or whose value is empty, raises \<^verbatim>\<open>ValueError\<close> and leaves
  the instance as it was: nothing has been sent. So whenever the lookup returns and a
  request has been sent, every pair has an allowed key and a non-empty value.
\<close>

theorem get_user_query_validated:
  "(\<not> (\<forall>pair\<in>set (str_split CHR ''&'' query).
          partition_key CHR ''='' pair \<in> {''email'', ''username'', ''firstName'', ''lastName''}
          \<and> partition_value CHR ''='' pair \<noteq> [])
      \<longrightarrow> (\<exists>msg. get_user E None query s = Some (Inl (ValueError msg), s)))
   \<and> (\<forall>r s'. get_user E None query s = Some (r, s') \<and> calls s' \<noteq> calls s
      \<longrightarrow> (\<forall>pair\<in>set (str_split CHR ''&'' query).
          partition_key CHR ''='' pair \<in> {''email'', ''username'', ''firstName'', ''lastName''}
          \<and> partition_value CHR ''='' pair \<noteq> []))"
proof -
  let ?ok = "\<forall>pair\<in>set (str_split CHR ''&'' query).
          partition_key CHR ''='' pair \<in> {''email'', ''username'', ''firstName'', ''lastName''}
          \<and> partition_value CHR ''='' pair \<noteq> []"
  have rejected: "\<exists>msg. get_user E None query s = Some (Inl (ValueError msg), s)" if "\<not> ?ok"
    using that get_user_rejected [of query E s] by (simp add: ALLOWED_QUERY_FIELDS_def)
  have "?ok" if "get_user E None query s = Some (r, s')" and "calls s' \<noteq> calls s" for r s'
  proof (rule ccontr)
    assume "\<not> ?ok"
    then obtain msg where "get_user E None query s = Some (Inl (ValueError msg), s)"
      using rejected by blast
    with that show False by simp
  qed
  with rejected show ?thesis by blast
qed

theorem get_user_query_validated_witness:
  "map_option snd
     (get_user
        (sample_env (alice_with [] None) no_events two_sessions (max_sessions_setting ''2'')
           tokens_granted)
        None ''username=alice&role=admin'' (sample_keycloak 1600000000))
   = Some (sample_keycloak 1600000000)
   \<and> map_option snd
     (get_user
        (sample_env (alice_with [] None) no_events two_sessions (max_sessions_setting ''2'')
           tokens_granted)
        None ''email='' (sample_keycloak 1600000000))
   = Some (sample_keycloak 1600000000)
   \<and> partition_key CHR ''='' ''username=alice''
       \<in> {''email'', ''username'', ''firstName'', ''lastName''}"
proof -
  let ?E = "sample_env (alice_with [] None) no_events two_sessions (max_sessions_setting ''2'')
              tokens_granted"
  have 1: "str_split CHR ''&'' ''username=alice&role=admin'' = [''username=alice'', ''role=admin'']"
    by (simp add: str_split_def)
  have 2: "str_split CHR ''&'' ''email='' = [''email='']"
    by (simp add: str_split_def)
  have "\<exists>msg. get_user ?E None ''username=alice&role=admin'' (sample_keycloak 1600000000)
              = Some (Inl (ValueError msg), sample_keycloak 1600000000)"
    using get_user_query_validated [of "''username=alice&role=admin''" ?E
                                       "sample_keycloak 1600000000"]
    by (simp add: 1 partition_key_def partition_value_def)
  moreover
  have "\<exists>msg. get_user ?E None ''email='' (sample_keycloak 1600000000)
              = Some (Inl (ValueError msg), sample_keycloak 1600000000)"
    using get_user_query_validated [of "''email=''" ?E "sample_keycloak 1600000000"]
    by (simp add: 2 partition_key_def partition_value_def)
  moreover
  have 3: "str_split CHR ''&'' ''username=alice'' = [''username=alice'']"
    by (simp add: str_split_def)
  have "get_user ?E None ''username=alice'' (sample_keycloak 1600000000)
        = Some (Inr (Direct (alice_with [] None)), sample_after 1600000000 [user_get])
        \<and> calls (sample_after 1600000000 [user_get]) \<noteq> calls (sample_keycloak 1600000000)"
    using sample_get_user [of "alice_with [] None" no_events two_sessions
                              "max_sessions_setting ''2''" tokens_granted 1600000000 "[]"]
    by (simp add: sample_after_Nil sample_after_def sample_keycloak_def)
  then have "\<forall>pair\<in>set (str_split CHR ''&'' ''username=alice'').
          partition_key CHR ''='' pair \<in> {''email'', ''username'', ''firstName'', ''lastName''}
          \<and> partition_value CHR ''='' pair \<noteq> []"
    using get_user_query_validated [of "''username=alice''" ?E "sample_keycloak 1600000000"]
    by blast
  then have "partition_key CHR ''='' ''username=alice''
             \<in> {''email'', ''username'', ''firstName'', ''lastName''}"
    by (simp add: 3)
  ultimately show ?thesis by auto
qed

subsection \<open>No grant exchange before the pre-checks have passed\<close>

lemma perform_grants:
  "perform E req s = (r, s') \<Longrightarrow> \<not> is_password_grant req \<Longrightarrow> grant_exchanges s' = grant_exchanges s"
  by (auto simp: perform_def grant_exchanges_def split: prod.splits)

lemma public_key_grants: "public_key E s = (r, s') \<Longrightarrow> grant_exchanges s' = grant_exchanges s"
  by (auto simp: public_key_def is_password_grant_def Let_def grant_exchanges_def
           split: option.splits prod.splits sum.splits dest!: perform_grants)

lemma decode_token_grants:
  "decode_token E t opts aud s = (r, s') \<Longrightarrow> grant_exchanges s' = grant_exchanges s"
  by (auto simp: decode_token_def Let_def grant_exchanges_def
           split: option.splits prod.splits sum.splits dest!: public_key_grants)

lemma token_is_valid_grants:
  "token_is_valid E t aud s = (r, s') \<Longrightarrow> grant_exchanges s' = grant_exchanges s"
  by (auto simp: token_is_valid_def split: prod.splits sum.splits if_splits dest: decode_token_grants)

lemma set_admin_token_grants:
  "set_admin_token E t s = (r, s') \<Longrightarrow> grant_exchanges s' = grant_exchanges s"
  by (auto simp: set_admin_token_def grant_exchanges_def split: prod.splits sum.splits if_splits dest!: decode_token_grants)

lemma get_admin_token_grants:
  "get_admin_token E s = (r, s') \<Longrightarrow> grant_exchanges s' = grant_exchanges s"
  apply (auto simp: get_admin_token_def Let_def  split: prod.splits sum.splits if_splits option.splits exn.splits 
       dest!: set_admin_token_grants perform_grants)
  apply (auto simp: is_password_grant_def admin_grant_request_def)
  done


lemma admin_token_grants:
  assumes "admin_token E s = Some (r, s')"
  shows "grant_exchanges s' = grant_exchanges s"
proof -
  have "grant_exchanges (snd (r, s')) = grant_exchanges s"
  proof (rule admin_token.raw_induct
           [where P = "\<lambda>E s y. grant_exchanges (snd y) = grant_exchanges s", OF _ assms])
    fix f and E :: "'a env" and s y
    assume IH: "\<And>E s y. f E s = Some y \<Longrightarrow> grant_exchanges (snd y) = grant_exchanges s"
      and body: "(case token_is_valid E (admin_token_field s) None s of
                    (Inl e, s1) \<Rightarrow> Some (Inl e, s1)
                  | (Inr valid, s1) \<Rightarrow>
                      if valid then Some (Inr (admin_token_field s1), s1)
                      else (case get_admin_token E s1 of
                              (Inl e, s2) \<Rightarrow> Some (Inl e, s2)
                            | (Inr u, s2) \<Rightarrow> f E s2)) = Some y"
    from body show "grant_exchanges (snd y) = grant_exchanges s"
      by (auto split: prod.splits sum.splits if_splits
               dest!: token_is_valid_grants get_admin_token_grants IH)
  qed
  then show ?thesis by simp
qed

lemma admin_request_grants:
  "admin_request E u m p s = Some (r, s') \<Longrightarrow> grant_exchanges s' = grant_exchanges s"
  by (auto simp: admin_request_def is_password_grant_def
           split: option.splits prod.splits sum.splits
           dest!: admin_token_grants perform_grants)

lemma get_user_grants:
  "get_user E uid q s = Some (r, s') \<Longrightarrow> grant_exchanges s' = grant_exchanges s"
  by (auto simp: get_user_def get_user_body_def decorated_def
           split: option.splits prod.splits sum.splits if_splits
           dest!: admin_request_grants)

lemma is_user_temporarily_disabled_grants:
  "is_user_temporarily_disabled E uid s = Some (r, s') \<Longrightarrow> grant_exchanges s' = grant_exchanges s"
  by (auto simp: is_user_temporarily_disabled_def is_user_temporarily_disabled_body_def
                 decorated_def is_password_grant_def events_request_def
           split: option.splits prod.splits sum.splits if_splits
           dest!: admin_token_grants perform_grants)

lemma validate_account_expiration_grants:
  "validate_account_expiration E user s = (r, s') \<Longrightarrow> grant_exchanges s' = grant_exchanges s"
  by (auto simp: validate_account_expiration_def Let_def grant_exchanges_def
           split: option.splits prod.splits sum.splits if_splits json.splits)

lemma get_active_sessions_grants:
  "get_active_sessions E uid s = Some (r, s') \<Longrightarrow> grant_exchanges s' = grant_exchanges s"
  by (auto simp: get_active_sessions_def Let_def
           split: option.splits prod.splits sum.splits if_splits
           dest!: admin_request_grants)

lemma get_max_concurrent_sessions_grants:
  "get_max_concurrent_sessions E s = Some (r, s') \<Longrightarrow> grant_exchanges s' = grant_exchanges s"
  by (auto simp: get_max_concurrent_sessions_def Let_def
           split: option.splits prod.splits sum.splits if_splits
           dest!: admin_request_grants)

lemma login_prechecks_grants:
  "login_prechecks E uname s = Some (r, s') \<Longrightarrow> grant_exchanges s' = grant_exchanges s"
  by (auto simp: login_prechecks_def
           split: option.splits prod.splits sum.splits if_splits
           dest!: get_user_grants is_user_temporarily_disabled_grants
                  validate_account_expiration_grants get_active_sessions_grants
                  get_max_concurrent_sessions_grants)

subsection \<open>Login\<close>

lemma login_prechecks_user:
  "login_prechecks E uname s = Some (Inr user, s5) \<Longrightarrow>
   \<exists>got s1. get_user E None (''username='' @ uname) s = Some (Inr got, s1)
            \<and> as_user got = Inr user"
  by (auto simp: login_prechecks_def
           split: option.splits prod.splits sum.splits if_splits)

lemma user_login_after_prechecks:
  "login_prechecks E uname s = Some (Inr user, s5) \<Longrightarrow>
   perform E (password_grant_request s5 uname password) s5 = (Inr response, s6) \<Longrightarrow>
   user_login E uname password s = Some (authentication_result user response, s6)"
  by (simp add: user_login_def)

lemma user_login_failed_precheck:
  "login_prechecks E uname s = Some (Inl e, s') \<Longrightarrow>
   user_login E uname password s = Some (Inl e, s') \<and> grant_exchanges s' = grant_exchanges s"
  by (simp add: user_login_def login_prechecks_grants)

lemma user_login_grant_needs_prechecks:
  assumes "user_login E uname password s = Some (r, s')"
    and "grant_exchanges s' \<noteq> grant_exchanges s"
  shows "\<exists>user s5. login_prechecks E uname s = Some (Inr user, s5)"
proof (cases "login_prechecks E uname s")
  case None
  with assms show ?thesis by (simp add: user_login_def)
next
  case (Some a)
  obtain res s5 where a: "a = (res, s5)" by (cases a)
  show ?thesis
  proof (cases res)
    case (Inl e)
    with Some a assms user_login_failed_precheck [of E uname s e s5 password]
    show ?thesis by simp
  next
    case (Inr user)
    with Some a show ?thesis by simp
  qed
qed

text \<open>
  Claim C2. Once the user is fetched, \<^verbatim>\<open>user_login\<close> checks the lockout, then the
  expiration, then the session limit, and stops at the first check that fails, in the
  state that check left: a locked-out user gets the lockout failure whatever the
  expiration date is, an expired user who is not locked out gets the failure of the
  expiration check, and a user over the session limit gets the limit failure only after
  the two other checks have passed. In each of these cases no grant exchange has been
  sent; whenever \<^verbatim>\<open>user_login\<close> returns and a grant exchange has been sent, all the
  pre-checks had passed.
\<close>

theorem user_login_precheck_order:
  assumes "get_user E None (''username='' @ uname) s = Some (Inr got, s1)"
    and "as_user got = Inr user"
    and "is_user_temporarily_disabled E (id_field user) s1 = Some (Inr disabled, s2)"
  shows "(unwrapped_truthy disabled \<longrightarrow>
            user_login E uname password s
              = Some (Inl (HTTPException 403
                  ''The user is temporarily disabled due to too many failed login attempts.''), s2)
            \<and> grant_exchanges s2 = grant_exchanges s)
       \<and> (\<not> unwrapped_truthy disabled \<longrightarrow>
            (\<forall>e s3. validate_account_expiration E user s2 = (Inl e, s3) \<longrightarrow>
               user_login E uname password s = Some (Inl e, s3)
               \<and> grant_exchanges s3 = grant_exchanges s)
          \<and> (\<forall>s3 sessions s4 m s5.
               validate_account_expiration E user s2 = (Inr (), s3)
               \<and> get_active_sessions E (id_field user) s3 = Some (Inr sessions, s4)
               \<and> get_max_concurrent_sessions E s4 = Some (Inr m, s5)
               \<and> session_limit_reached m sessions = Inr True \<longrightarrow>
               user_login E uname password s
                 = Some (Inl (HTTPException 403
                     ''Concurrent session limit reached. Please close a session and try again.''), s5)
               \<and> grant_exchanges s5 = grant_exchanges s))
       \<and> (\<forall>r s'. user_login E uname password s = Some (r, s')
                   \<and> grant_exchanges s' \<noteq> grant_exchanges s \<longrightarrow>
            (\<exists>s5. login_prechecks E uname s = Some (Inr user, s5)))"
proof (intro conjI impI allI)
  assume "unwrapped_truthy disabled"
  with assms have "login_prechecks E uname s
      = Some (Inl (HTTPException 403
          ''The user is temporarily disabled due to too many failed login attempts.''), s2)"
    by (simp add: login_prechecks_def)
  then show "user_login E uname password s
              = Some (Inl (HTTPException 403
                  ''The user is temporarily disabled due to too many failed login attempts.''), s2)"
    and "grant_exchanges s2 = grant_exchanges s"
    using user_login_failed_precheck by blast+
next
  fix e s3
  assume "\<not> unwrapped_truthy disabled" "validate_account_expiration E user s2 = (Inl e, s3)"
  with assms have "login_prechecks E uname s = Some (Inl e, s3)"
    by (simp add: login_prechecks_def)
  then show "user_login E uname password s = Some (Inl e, s3)"
    and "grant_exchanges s3 = grant_exchanges s"
    using user_login_failed_precheck by blast+
next
  fix s3 sessions s4 m s5
  assume "\<not> unwrapped_truthy disabled"
    and "validate_account_expiration E user s2 = (Inr (), s3)
         \<and> get_active_sessions E (id_field user) s3 = Some (Inr sessions, s4)
         \<and> get_max_concurrent_sessions E s4 = Some (Inr m, s5)
         \<and> session_limit_reached m sessions = Inr True"
  with assms have "login_prechecks E uname s
      = Some (Inl (HTTPException 403
            ''Concurrent session limit reached. Please close a session and try again.''), s5)"
    by (simp add: login_prechecks_def)
  then show "user_login E uname password s
                 = Some (Inl (HTTPException 403
                     ''Concurrent session limit reached. Please close a session and try again.''), s5)"
    and "grant_exchanges s5 = grant_exchanges s"
    using user_login_failed_precheck by blast+
next
  fix r s'
  assume "user_login E uname password s = Some (r, s') \<and> grant_exchanges s' \<noteq> grant_exchanges s"
  then obtain u s5 where "login_prechecks E uname s = Some (Inr u, s5)"
    using user_login_grant_needs_prechecks by blast
  moreover from this assms have "u = user"
    by (auto simp: login_prechecks_def split: option.splits prod.splits sum.splits if_splits)
  ultimately show "\<exists>s5. login_prechecks E uname s = Some (Inr user, s5)" by blast
qed

theorem user_login_precheck_order_witness:
  "user_login
     (sample_env
        (alice_with [] (Some [(''account_expiration'', JArr [JStr ''2020-01-01T00:00:00Z''])]))
        lockout_events two_sessions (max_sessions_setting ''2'') tokens_granted)
     ''alice'' ''pw'' (sample_keycloak 1600000000)
   = Some (Inl (HTTPException 403
              ''The user is temporarily disabled due to too many failed login attempts.''),
           sample_after 1600000000 [user_get, events_get])
   \<and> fst (validate_account_expiration
        (sample_env
           (alice_with [] (Some [(''account_expiration'', JArr [JStr ''2020-01-01T00:00:00Z''])]))
           lockout_events two_sessions (max_sessions_setting ''2'') tokens_granted)
        (alice_with [] (Some [(''account_expiration'', JArr [JStr ''2020-01-01T00:00:00Z''])]))
        (sample_after 1600000000 [user_get, events_get]))
     = Inl (HTTPException 403 ''The account has expired. Please contact the administrator.'')
   \<and> grant_exchanges (sample_after 1600000000 [user_get, events_get]) = []
   \<and> user_login
     (sample_env
        (alice_with [] (Some [(''account_expiration'', JArr [JStr ''2020-01-01T00:00:00Z''])]))
        no_events two_sessions (max_sessions_setting ''2'') tokens_granted)
     ''alice'' ''pw'' (sample_keycloak 1600000000)
   = Some (Inl (HTTPException 403
              ''The account has expired. Please contact the administrator.''),
           sample_after 1600000000 [user_get, events_get])
   \<and> user_login
     (sample_env (alice_with [] None) no_events two_sessions (max_sessions_setting ''2'')
        tokens_granted)
     ''alice'' ''pw'' (sample_keycloak 1600000000)
   = Some (Inl (HTTPException 403
              ''Concurrent session limit reached. Please close a session and try again.''),
           sample_after 1600000000 precheck_requests)
   \<and> grant_exchanges (sample_after 1600000000 precheck_requests) = []
   \<and> map_option fst
     (login_prechecks
        (sample_env (alice_with [] None) no_events two_sessions (max_sessions_setting ''0'')
           tokens_granted)
        ''alice'' (sample_keycloak 1600000000))
   = Some (Inr (alice_with [] None))"
proof -
  let ?x = "alice_with [] (Some [(''account_expiration'', JArr [JStr ''2020-01-01T00:00:00Z''])])"
  let ?a = "alice_with [] None"
  let ?s0 = "sample_keycloak 1600000000"
  let ?s2 = "sample_after 1600000000 [user_get, events_get]"
  let ?s5 = "sample_after 1600000000 precheck_requests"
  let ?s6 = "sample_after 1600000000
               (precheck_requests @ [password_grant_request ?s0 ''alice'' ''pw''])"
  let ?Elocked = "sample_env ?x lockout_events two_sessions (max_sessions_setting ''2'')
                    tokens_granted"
  let ?Eexpired = "sample_env ?x no_events two_sessions (max_sessions_setting ''2'')
                     tokens_granted"
  let ?Efull = "sample_env ?a no_events two_sessions (max_sessions_setting ''2'') tokens_granted"
  let ?Efree = "sample_env ?a no_events two_sessions (max_sessions_setting ''0'') tokens_granted"
  have yes: "unwrapped_truthy (Direct True)" and no: "\<not> unwrapped_truthy (Direct False)"
    by (simp_all add: unwrapped_truthy_def)
  let ?s1 = "sample_after 1600000000 [user_get]"
  let ?s4 = "sample_after 1600000000 [user_get, events_get, sessions_get]"
  let ?two = "JArr [JObj [(''id'', JStr ''s1'')], JObj [(''id'', JStr ''s2'')]]"
  have locked:
    "get_user ?Elocked None (''username='' @ ''alice'') ?s0 = Some (Inr (Direct ?x), ?s1)"
    "is_user_temporarily_disabled ?Elocked ''u1'' ?s1 = Some (Inr (Direct True), ?s2)"
    unfolding lockout_events_def
    by (rule sample_steps [OF find_disabled_samples(1) two_sessions_json sample_int_of_str(1)])+
  have expired:
    "get_user ?Eexpired None (''username='' @ ''alice'') ?s0 = Some (Inr (Direct ?x), ?s1)"
    "is_user_temporarily_disabled ?Eexpired ''u1'' ?s1 = Some (Inr (Direct False), ?s2)"
    unfolding no_events_def
    by (rule sample_steps [OF find_disabled_samples(2) two_sessions_json sample_int_of_str(1)])+
  have full:
    "get_user ?Efull None (''username='' @ ''alice'') ?s0 = Some (Inr (Direct ?a), ?s1)"
    "is_user_temporarily_disabled ?Efull ''u1'' ?s1 = Some (Inr (Direct False), ?s2)"
    "get_active_sessions ?Efull ''u1'' ?s2 = Some (Inr ?two, ?s4)"
    "get_max_concurrent_sessions ?Efull ?s4 = Some (Inr 2, ?s5)"
    unfolding no_events_def
    by (rule sample_steps [OF find_disabled_samples(2) two_sessions_json sample_int_of_str(1)])+
  have free:
    "get_user ?Efree None (''username='' @ ''alice'') ?s0 = Some (Inr (Direct ?a), ?s1)"
    "is_user_temporarily_disabled ?Efree ''u1'' ?s1 = Some (Inr (Direct False), ?s2)"
    unfolding no_events_def
    by (rule sample_steps [OF find_disabled_samples(2) two_sessions_json sample_int_of_str(2)])+
  have id: "id_field ?x = ''u1''" "id_field ?a = ''u1''"
    by (simp_all add: alice_with_def)
  have v: "validate_account_expiration E ?x ?s2
           = (Inl (HTTPException 403
                ''The account has expired. Please contact the administrator.''), ?s2)"
    if "E = sample_env ?x ev two_sessions (max_sessions_setting ''2'') tokens_granted" for E ev
    unfolding that by (rule sample_expired) simp
  have A: "user_login ?Elocked ''alice'' ''pw'' ?s0
           = Some (Inl (HTTPException 403
                ''The user is temporarily disabled due to too many failed login attempts.''), ?s2)
           \<and> grant_exchanges ?s2 = []"
    using user_login_precheck_order
            [OF locked(1) as_user_Direct locked(2) [folded id(1)], of "''pw''"]
          yes sample_no_grants
    by simp
  have B: "user_login ?Eexpired ''alice'' ''pw'' ?s0
           = Some (Inl (HTTPException 403
                ''The account has expired. Please contact the administrator.''), ?s2)"
    using user_login_precheck_order
            [OF expired(1) as_user_Direct expired(2) [folded id(1)], of "''pw''"]
          no v [OF refl, of no_events]
    by simp
  have reached: "session_limit_reached 2
                   (JArr [JObj [(''id'', JStr ''s1'')], JObj [(''id'', JStr ''s2'')]]) = Inr True"
    by (simp add: session_limit_reached_def)
  have C: "user_login ?Efull ''alice'' ''pw'' ?s0
           = Some (Inl (HTTPException 403
                ''Concurrent session limit reached. Please close a session and try again.''), ?s5)
           \<and> grant_exchanges ?s5 = []"
    using user_login_precheck_order
            [OF full(1) as_user_Direct full(2) [folded id(2)], of "''pw''"]
          no sample_not_expiring [of ?Efull "[]" ?s2] full(3) [folded id(2)] full(4) reached
          sample_no_grants
    by simp
  have pre: "login_prechecks ?Efree ''alice'' ?s0 = Some (Inr ?a, ?s5)"
    unfolding no_events_def by (rule sample_passing [OF find_disabled_samples(2)])
  have granted: "user_login ?Efree ''alice'' ''pw'' ?s0
                 = Some (authentication_result ?a tokens_granted, ?s6)"
    by (rule user_login_after_prechecks [OF pre sample_grant])
  have sent: "grant_exchanges ?s6 \<noteq> grant_exchanges ?s0"
    by (simp add: grant_exchanges_def sample_after_calls sample_keycloak_def
             precheck_requests_def user_get_def events_get_def sessions_get_def realm_get_def
             admin_get_def is_password_grant_def password_grant_request_def)
  have D: "\<exists>s5. login_prechecks ?Efree ''alice'' ?s0 = Some (Inr ?a, s5)"
    using user_login_precheck_order
            [OF free(1) as_user_Direct free(2) [folded id(2)], of "''pw''"]
          granted sent
    by blast
  from A v [OF refl, of lockout_events] B C D show ?thesis
    by auto
qed

text \<open>
  Claim C6. Let the pre-checks before it have passed, \<open>sessions\<close> be what
  \<^verbatim>\<open>get_active_sessions\<close> returned and \<open>M\<close> what \<^verbatim>\<open>get_max_concurrent_sessions\<close> returned.
  If \<open>M > 0\<close> and the number \<open>C\<close> of sessions is at least \<open>M\<close>, the login fails with the
  session-limit failure and no grant exchange has been sent. If \<open>M = 0\<close>, whatever
  \<open>sessions\<close> holds, and also when \<open>C < M\<close>, the login goes on to the grant exchange: the
  next request is the \<^verbatim>\<open>POST\<close> to the token endpoint of the form with the client, the
  user name, the password and the grant type \<^verbatim>\<open>password\<close>; it is a grant exchange, the
  only one sent by the login, and the outcome of the login is read off its answer.
\<close>

theorem user_login_session_limit:
  assumes "get_user E None (''username='' @ uname) s = Some (Inr got, s1)"
    and "as_user got = Inr user"
    and "is_user_temporarily_disabled E (id_field user) s1 = Some (Inr disabled, s2)"
    and "\<not> unwrapped_truthy disabled"
    and "validate_account_expiration E user s2 = (Inr (), s3)"
    and "get_active_sessions E (id_field user) s3 = Some (Inr sessions, s4)"
    and "get_max_concurrent_sessions E s4 = Some (Inr M, s5)"
  shows "(\<forall>C. M > 0 \<and> py_len sessions = Inr C \<and> C \<ge> M \<longrightarrow>
            user_login E uname password s
              = Some (Inl (HTTPException 403
                  ''Concurrent session limit reached. Please close a session and try again.''), s5)
            \<and> grant_exchanges s5 = grant_exchanges s)
       \<and> (M = 0 \<or> (\<exists>C. py_len sessions = Inr C \<and> C < M) \<longrightarrow>
            (\<exists>req answer s6.
                req = \<lparr>http_method = ''POST'', url = token_uri s5,
                       headers = [(''Content-Type'', ''application/x-www-form-urlencoded'')],
                       params = [],
                       data = Form [(''client_id'', client_id s5),
                                    (''client_secret'', client_secret s5),
                                    (''username'', uname), (''password'', password),
                                    (''grant_type'', ''password''), (''scope'', scope s5)]\<rparr>
              \<and> is_password_grant req
              \<and> perform E req s5 = (answer, s6)
              \<and> user_login E uname password s
                  = Some (case answer of
                            Inl e \<Rightarrow> Inl e
                          | Inr response \<Rightarrow> authentication_result user response, s6)
              \<and> calls s6 = calls s5 @ [req]
              \<and> grant_exchanges s6 = grant_exchanges s @ [req]))"
proof (intro conjI impI allI)
  fix C
  assume "M > 0 \<and> py_len sessions = Inr C \<and> C \<ge> M"
  then have "session_limit_reached M sessions = Inr True"
    by (simp add: session_limit_reached_def)
  with assms have "login_prechecks E uname s
      = Some (Inl (HTTPException 403
            ''Concurrent session limit reached. Please close a session and try again.''), s5)"
    by (simp add: login_prechecks_def)
  then show "user_login E uname password s
              = Some (Inl (HTTPException 403
                  ''Concurrent session limit reached. Please close a session and try again.''), s5)"
    and "grant_exchanges s5 = grant_exchanges s"
    using user_login_failed_precheck by blast+
next
  let ?req = "\<lparr>http_method = ''POST'', url = token_uri s5,
                headers = [(''Content-Type'', ''application/x-www-form-urlencoded'')],
                params = [],
                data = Form [(''client_id'', client_id s5),
                             (''client_secret'', client_secret s5),
                             (''username'', uname), (''password'', password),
                             (''grant_type'', ''password''), (''scope'', scope s5)]\<rparr>"
  assume "M = 0 \<or> (\<exists>C. py_len sessions = Inr C \<and> C < M)"
  then have "session_limit_reached M sessions = Inr False"
    by (auto simp: session_limit_reached_def)
  with assms have pre: "login_prechecks E uname s = Some (Inr user, s5)"
    by (simp add: login_prechecks_def)
  have sent: "password_grant_request s5 uname password = ?req"
    by (simp add: password_grant_request_def)
  have grant: "is_password_grant ?req"
    by (simp add: is_password_grant_def)
  obtain answer s6 where p: "perform E ?req s5 = (answer, s6)"
    by (cases "perform E ?req s5")
  then have c: "calls s6 = calls s5 @ [?req]"
    by (rule perform_calls)
  from pre have "grant_exchanges s5 = grant_exchanges s"
    by (rule login_prechecks_grants)
  with c grant have g: "grant_exchanges s6 = grant_exchanges s @ [?req]"
    by (simp add: grant_exchanges_def)
  from pre p have "user_login E uname password s
      = Some (case answer of Inl e \<Rightarrow> Inl e
              | Inr response \<Rightarrow> authentication_result user response, s6)"
    by (cases answer) (simp_all add: user_login_def sent)
  with grant p c g
  show "\<exists>req answer s6.
          req = ?req
        \<and> is_password_grant req
        \<and> perform E req s5 = (answer, s6)
        \<and> user_login E uname password s
            = Some (case answer of
                      Inl e \<Rightarrow> Inl e
                    | Inr response \<Rightarrow> authentication_result user response, s6)
        \<and> calls s6 = calls s5 @ [req]
        \<and> grant_exchanges s6 = grant_exchanges s @ [req]"
    by blast
qed

theorem user_login_session_limit_witness:
  "user_login
     (sample_env (alice_with [] None) no_events two_sessions (max_sessions_setting ''2'')
        tokens_granted)
     ''alice'' ''pw'' (sample_keycloak 1600000000)
   = Some (Inl (HTTPException 403
              ''Concurrent session limit reached. Please close a session and try again.''),
           sample_after 1600000000 precheck_requests)
   \<and> grant_exchanges (sample_after 1600000000 precheck_requests) = []
   \<and> user_login
       (sample_env (alice_with [] None) no_events two_sessions (max_sessions_setting ''0'')
          tokens_granted)
       ''alice'' ''pw'' (sample_keycloak 1600000000)
     = Some (authentication_result (alice_with [] None) tokens_granted,
             sample_after 1600000000
               (precheck_requests
                @ [\<lparr>http_method = ''POST'', url = ''kc/token'',
                     headers = [(''Content-Type'', ''application/x-www-form-urlencoded'')],
                     params = [],
                     data = Form [(''client_id'', ''app''), (''client_secret'', ''cs''),
                                  (''username'', ''alice''), (''password'', ''pw''),
                                  (''grant_type'', ''password''), (''scope'', ''openid'')]\<rparr>]))
   \<and> grant_exchanges
       (sample_after 1600000000
          (precheck_requests
           @ [\<lparr>http_method = ''POST'', url = ''kc/token'',
                headers = [(''Content-Type'', ''application/x-www-form-urlencoded'')],
                params = [],
                data = Form [(''client_id'', ''app''), (''client_secret'', ''cs''),
                             (''username'', ''alice''), (''password'', ''pw''),
                             (''grant_type'', ''password''), (''scope'', ''openid'')]\<rparr>]))
     = [\<lparr>http_method = ''POST'', url = ''kc/token'',
          headers = [(''Content-Type'', ''application/x-www-form-urlencoded'')],
          params = [],
          data = Form [(''client_id'', ''app''), (''client_secret'', ''cs''),
                       (''username'', ''alice''), (''password'', ''pw''),
                       (''grant_type'', ''password''), (''scope'', ''openid'')]\<rparr>]"
proof -
  let ?a = "alice_with [] None"
  let ?s0 = "sample_keycloak 1600000000"
  let ?s5 = "sample_after 1600000000 precheck_requests"
  let ?Efree = "sample_env ?a no_events two_sessions (max_sessions_setting ''0'') tokens_granted"
  let ?req = "\<lparr>http_method = ''POST'', url = ''kc/token'',
                headers = [(''Content-Type'', ''application/x-www-form-urlencoded'')],
                params = [],
                data = Form [(''client_id'', ''app''), (''client_secret'', ''cs''),
                             (''username'', ''alice''), (''password'', ''pw''),
                             (''grant_type'', ''password''), (''scope'', ''openid'')]\<rparr>"
  have d: "\<not> unwrapped_truthy (Direct False)"
    by (simp add: unwrapped_truthy_def)
  have len: "py_len (JArr [JObj [(''id'', JStr ''s1'')], JObj [(''id'', JStr ''s2'')]]) = Inr 2"
    by simp
  note capped = sample_steps [OF find_disabled_samples(2) two_sessions_json sample_int_of_str(1),
                              of ?a "''[]''" tokens_granted 1600000000]
  note uncapped = sample_steps [OF find_disabled_samples(2) two_sessions_json sample_int_of_str(2),
                            of ?a "''[]''" tokens_granted 1600000000]
  have limit: "user_login
       (sample_env ?a no_events two_sessions (max_sessions_setting ''2'') tokens_granted)
       ''alice'' ''pw'' ?s0
     = Some (Inl (HTTPException 403
                ''Concurrent session limit reached. Please close a session and try again.''),
             ?s5)
     \<and> grant_exchanges ?s5 = []"
    using user_login_session_limit
            [OF capped(1) as_user_Direct capped(2) [folded id_alice [of "[]" None]] d
                sample_not_expiring capped(3) [folded id_alice [of "[]" None]] capped(4),
             of "''pw''"]
          len sample_no_grants
    by (simp add: no_events_def)
  have config: "token_uri ?s5 = ''kc/token''" "client_id ?s5 = ''app''"
    "client_secret ?s5 = ''cs''" "scope ?s5 = ''openid''"
    by (simp_all add: sample_after_def sample_keycloak_def)
  have answered: "perform ?Efree ?req ?s5
                  = (Inr tokens_granted, sample_after 1600000000 (precheck_requests @ [?req]))"
  proof -
    have "perform ?Efree (password_grant_request ?s5 ''alice'' ''pw'') ?s5
          = (Inr tokens_granted,
             sample_after 1600000000
               (precheck_requests @ [password_grant_request ?s0 ''alice'' ''pw'']))"
      by (rule sample_grant)
    then show ?thesis
      by (simp add: password_grant_request_def config sample_keycloak_def)
  qed
  have "\<exists>req answer s6.
          req = ?req
        \<and> is_password_grant req
        \<and> perform ?Efree req ?s5 = (answer, s6)
        \<and> user_login ?Efree ''alice'' ''pw'' ?s0
            = Some (case answer of
                      Inl e \<Rightarrow> Inl e
                    | Inr response \<Rightarrow> authentication_result ?a response, s6)
        \<and> calls s6 = calls ?s5 @ [req]
        \<and> grant_exchanges s6 = grant_exchanges ?s0 @ [req]"
    using user_login_session_limit
            [OF uncapped(1) as_user_Direct uncapped(2) [folded id_alice [of "[]" None]] d
                sample_not_expiring uncapped(3) [folded id_alice [of "[]" None]] uncapped(4),
             of "''pw''"]
    by (simp add: no_events_def config)
  then have "user_login ?Efree ''alice'' ''pw'' ?s0
             = Some (authentication_result ?a tokens_granted,
                     sample_after 1600000000 (precheck_requests @ [?req]))
           \<and> grant_exchanges (sample_after 1600000000 (precheck_requests @ [?req])) = [?req]"
    using sample_no_grants [of 1600000000]
    by (auto simp: answered sample_after_Nil)
  with limit show ?thesis by simp
qed

text \<open>
  Claim C4. Let the pre-checks have passed with the user record fetched at the start of
  \<^verbatim>\<open>user_login\<close>, and let the grant exchange answer with status 400. If the
  \<^verbatim>\<open>requiredActions\<close> of that record are not empty, the login fails with the exception of
  their first element: \<open>update_user_locale\<close>, \<open>CONFIGURE_TOTP\<close>, \<open>VERIFY_EMAIL\<close>,
  \<open>UPDATE_PASSWORD\<close> and \<open>UPDATE_PROFILE\<close> have an exception of their own, and any other
  action gives the \<^verbatim>\<open>MandatoryActionException\<close> whose message names the action.
\<close>

theorem user_login_required_action:
  assumes "login_prechecks E uname s = Some (Inr user, s5)"
    and "perform E (password_grant_request s5 uname password) s5 = (Inr response, s6)"
    and "status_code response = 400"
    and "requiredActions user = action # others"
  shows "user_login E uname password s = Some (Inl (required_action_exception action), s6)
    \<and> (\<exists>got s1. get_user E None (''username='' @ uname) s = Some (Inr got, s1)
                 \<and> as_user got = Inr user)
    \<and> required_action_exception ''update_user_locale'' = UpdateUserLocaleException
    \<and> required_action_exception ''CONFIGURE_TOTP'' = ConfigureTOTPException
    \<and> required_action_exception ''VERIFY_EMAIL'' = VerifyEmailException
    \<and> required_action_exception ''UPDATE_PASSWORD'' = UpdatePasswordException
    \<and> required_action_exception ''UPDATE_PROFILE'' = UpdateProfileException
    \<and> (action \<notin> {''update_user_locale'', ''CONFIGURE_TOTP'', ''VERIFY_EMAIL'',
                    ''UPDATE_PASSWORD'', ''UPDATE_PROFILE''} \<longrightarrow>
         required_action_exception action
           = MandatoryActionException
               (''This user cannot log in until the required action is resolved: ''
                @ action @ ''.''))"
proof -
  from assms(3,4) have "authentication_result user response
                        = Inl (required_action_exception action)"
    by (simp add: authentication_result_def)
  with assms(1,2) have "user_login E uname password s
                        = Some (Inl (required_action_exception action), s6)"
    by (simp add: user_login_after_prechecks)
  moreover note login_prechecks_user [OF assms(1)]
  ultimately show ?thesis
    by (simp add: required_action_exception_def)
qed

theorem user_login_required_action_witness:
  "map_option fst
     (user_login
        (sample_env (alice_with [''UPDATE_PASSWORD''] None) no_events two_sessions
           (max_sessions_setting ''0'') setup_required)
        ''alice'' ''pw'' (sample_keycloak 1600000000))
   = Some (Inl UpdatePasswordException)
   \<and> map_option fst
     (user_login
        (sample_env (alice_with [''webauthn-register'', ''VERIFY_EMAIL''] None) no_events
           two_sessions (max_sessions_setting ''0'') setup_required)
        ''alice'' ''pw'' (sample_keycloak 1600000000))
   = Some (Inl (MandatoryActionException
        ''This user cannot log in until the required action is resolved: webauthn-register.''))"
proof -
  have s: "status_code setup_required = 400"
    by (simp add: setup_required_def)
  have 1: "requiredActions (alice_with [''UPDATE_PASSWORD''] None) = ''UPDATE_PASSWORD'' # []"
    by (simp add: alice_with_def)
  have 2: "requiredActions (alice_with [''webauthn-register'', ''VERIFY_EMAIL''] None)
           = ''webauthn-register'' # [''VERIFY_EMAIL'']"
    by (simp add: alice_with_def)
  let ?a1 = "alice_with [''UPDATE_PASSWORD''] None"
  let ?a2 = "alice_with [''webauthn-register'', ''VERIFY_EMAIL''] None"
  let ?E1 = "sample_env ?a1 no_events two_sessions (max_sessions_setting ''0'') setup_required"
  let ?E2 = "sample_env ?a2 no_events two_sessions (max_sessions_setting ''0'') setup_required"
  let ?s5 = "sample_after 1600000000 precheck_requests"
  have p1: "login_prechecks ?E1 ''alice'' (sample_keycloak 1600000000) = Some (Inr ?a1, ?s5)"
    unfolding no_events_def by (rule sample_passing [OF find_disabled_samples(2)])
  have p2: "login_prechecks ?E2 ''alice'' (sample_keycloak 1600000000) = Some (Inr ?a2, ?s5)"
    unfolding no_events_def by (rule sample_passing [OF find_disabled_samples(2)])
  show ?thesis
    using user_login_required_action [OF p1 sample_grant s 1, where password = "''pw''"]
          user_login_required_action [OF p2 sample_grant s 2, where password = "''pw''"]
    by simp
qed

text \<open>
  Claim C3, at a failing input. The pre-checks pass and the grant exchange answers with
  status 500 and the JSON body \<^verbatim>\<open>{"error": "unknown_error"}\<close>, or with status 400 and an
  \<^verbatim>\<open>invalid_grant\<close> body for a user without required actions: \<^verbatim>\<open>user_login\<close> raises
  nothing and returns the dict of tokens, every entry \<^verbatim>\<open>None\<close>.
\<close>

theorem user_login_returns_on_server_error:
  "map_option fst
     (user_login
        (sample_env (alice_with [] None) no_events two_sessions (max_sessions_setting ''0'')
           server_error)
        ''alice'' ''pw'' (sample_keycloak 1600000000))
   = Some (Inr no_tokens)
   \<and> map_option fst
     (user_login
        (sample_env (alice_with [] None) no_events two_sessions (max_sessions_setting ''0'')
           account_disabled)
        ''alice'' ''pw'' (sample_keycloak 1600000000))
   = Some (Inr no_tokens)"
proof -
  have "authentication_result (alice_with [] None) server_error = Inr no_tokens"
    by (simp add: authentication_result_def server_error_def no_tokens_def alice_with_def)
  moreover
  have "authentication_result (alice_with [] None) account_disabled = Inr no_tokens"
    by (simp add: authentication_result_def account_disabled_def no_tokens_def alice_with_def)
  moreover
  have "login_prechecks
          (sample_env (alice_with [] None) no_events two_sessions (max_sessions_setting ''0'') g)
          ''alice'' (sample_keycloak 1600000000)
        = Some (Inr (alice_with [] None), sample_after 1600000000 precheck_requests)" for g
    unfolding no_events_def by (rule sample_passing [OF find_disabled_samples(2)])
  ultimately show ?thesis
    by (simp add: user_login_after_prechecks [OF _ sample_grant])
qed

subsection \<open>Account expiration\<close>

text \<open>
  Claim C5, as stated, fails at two users of the sample deployment. The first has the
  attribute \<^verbatim>\<open>account_expiration\<close> set to the empty string: the attribute is present and
  the empty string does not parse, yet the login raises no configuration error and
  returns the tokens. The second has it set to \<^verbatim>\<open>2020-01-01T00:00:00+00:00\<close>: the date
  parses and is before the clock, yet the login raises \<^verbatim>\<open>TypeError\<close>, not the expiration
  failure.
\<close>

theorem account_expiration_counterexample:
  "fromisoformat
     (sample_env (alice_with [] (Some [(''account_expiration'', JStr [])])) no_events
        two_sessions (max_sessions_setting ''0'') tokens_granted)
     (rstrip CHR ''Z'' []) = None
   \<and> map_option fst
     (user_login
        (sample_env (alice_with [] (Some [(''account_expiration'', JStr [])])) no_events
           two_sessions (max_sessions_setting ''0'') tokens_granted)
        ''alice'' ''pw'' (sample_keycloak 1600000000))
   = Some (Inr \<lparr>access_token = JStr ''U'', refresh_token = JNull, id_token = JNull,
                 expires_in = JNum 300, refresh_expires_in = JNull\<rparr>)
   \<and> fromisoformat
     (sample_env
        (alice_with [] (Some [(''account_expiration'', JStr ''2020-01-01T00:00:00+00:00'')]))
        no_events two_sessions (max_sessions_setting ''0'') tokens_granted)
     (rstrip CHR ''Z'' ''2020-01-01T00:00:00+00:00'') = Some (Aware 1577836800 0)
   \<and> map_option fst
     (user_login
        (sample_env
           (alice_with [] (Some [(''account_expiration'', JStr ''2020-01-01T00:00:00+00:00'')]))
           no_events two_sessions (max_sessions_setting ''0'') tokens_granted)
        ''alice'' ''pw'' (sample_keycloak 1600000000))
   = Some (Inl TypeError)"
proof -
  let ?a = "alice_with [] (Some [(''account_expiration'', JStr [])])"
  let ?b = "alice_with [] (Some [(''account_expiration'', JStr ''2020-01-01T00:00:00+00:00'')])"
  let ?Ea = "sample_env ?a (ok_response ''[]'' (JArr [])) two_sessions (max_sessions_setting ''0'')
               tokens_granted"
  let ?Eb = "sample_env ?b (ok_response ''[]'' (JArr [])) two_sessions (max_sessions_setting ''0'')
               tokens_granted"
  let ?s2 = "sample_after 1600000000 [user_get, events_get]"
  have va: "validate_account_expiration ?Ea ?a ?s2 = (Inr (), ?s2)"
    by (simp add: validate_account_expiration_def account_expiration_def alice_with_def)
  have pa: "login_prechecks ?Ea ''alice'' (sample_keycloak 1600000000)
            = Some (Inr ?a, sample_after 1600000000 precheck_requests)"
    by (rule sample_prechecks [where m = 0])
       (simp_all add: id_alice va two_sessions_json sample_int_of_str session_limit_reached_def)
  have ra: "authentication_result ?a tokens_granted
            = Inr \<lparr>access_token = JStr ''U'', refresh_token = JNull, id_token = JNull,
                   expires_in = JNum 300, refresh_expires_in = JNull\<rparr>"
    by (simp add: authentication_result_def tokens_granted_def ok_response_def)
  have la: "map_option fst (user_login ?Ea ''alice'' ''pw'' (sample_keycloak 1600000000))
            = Some (Inr \<lparr>access_token = JStr ''U'', refresh_token = JNull, id_token = JNull,
                          expires_in = JNum 300, refresh_expires_in = JNull\<rparr>)"
    by (simp add: user_login_after_prechecks [OF pa sample_grant] ra)
  have vb: "validate_account_expiration ?Eb ?b ?s2 = (Inl TypeError, ?s2)"
    by (simp add: validate_account_expiration_def account_expiration_def alice_with_def
             rstrip_def sample_fromisoformat sample_utcnow sample_world)
  have steps: "get_user ?Eb None (''username='' @ ''alice'') (sample_keycloak 1600000000)
               = Some (Inr (Direct ?b), sample_after 1600000000 [user_get])"
      "is_user_temporarily_disabled ?Eb ''u1'' (sample_after 1600000000 [user_get])
       = Some (Inr (Direct False), ?s2)"
    by (rule sample_steps [OF find_disabled_samples(2) two_sessions_json sample_int_of_str(2)])+
  have "login_prechecks ?Eb ''alice'' (sample_keycloak 1600000000) = Some (Inl TypeError, ?s2)"
    using steps vb
    by (simp add: login_prechecks_def as_user_Direct id_alice unwrapped_truthy_def)
  then have lb: "map_option fst (user_login ?Eb ''alice'' ''pw'' (sample_keycloak 1600000000))
                 = Some (Inl TypeError)"
    by (simp add: user_login_def)
  from la lb show ?thesis
    by (simp add: no_events_def rstrip_def sample_fromisoformat)
qed

text \<open>
  Claim C5, amended. The value read is \<^verbatim>\<open>None\<close> unless the attributes are a non-empty
  dict, and then what they hold under \<^verbatim>\<open>account_expiration\<close>. A value that is absent or
  otherwise falsy (the empty string, the empty list) gives no expiration failure and the
  clock is not read. A value that is a non-empty string, or a list whose first element
  is a string, has every trailing \<open>Z\<close> of that string removed and the rest parsed: a parse
  failure gives the 400 failure; a parsed date without UTC offset gives the 403
  expiration failure when it is strictly before the clock, and passes when it is not.
  When the check fails for a user who is not locked out, \<^verbatim>\<open>user_login\<close> returns that
  failure and no grant exchange has been sent.
\<close>

theorem validate_account_expiration_checks:
  "(\<not> truthy (account_expiration user) \<longrightarrow>
       validate_account_expiration E user s = (Inr (), s))
   \<and> (\<forall>stamp. stamp \<noteq> [] \<and> account_expiration user = JStr stamp
              \<or> (\<exists>others. account_expiration user = JArr (JStr stamp # others)) \<longrightarrow>
        (fromisoformat E (rstrip CHR ''Z'' stamp) = None \<longrightarrow>
           validate_account_expiration E user s
             = (Inl (HTTPException 400 ''Invalid account expiration date format.''), s))
        \<and> (\<forall>t now w'. fromisoformat E (rstrip CHR ''Z'' stamp) = Some (Naive t)
                       \<and> utcnow E (world s) = (now, w') \<longrightarrow>
             validate_account_expiration E user s
               = (if t < now
                  then Inl (HTTPException 403
                         ''The account has expired. Please contact the administrator.'')
                  else Inr (),
                  s\<lparr>world := w'\<rparr>)))
   \<and> (\<forall>uname password s0 got s1 disabled e s3.
          get_user E None (''username='' @ uname) s0 = Some (Inr got, s1)
          \<and> as_user got = Inr user
          \<and> is_user_temporarily_disabled E (id_field user) s1 = Some (Inr disabled, s)
          \<and> \<not> unwrapped_truthy disabled
          \<and> validate_account_expiration E user s = (Inl e, s3) \<longrightarrow>
          user_login E uname password s0 = Some (Inl e, s3)
          \<and> grant_exchanges s3 = grant_exchanges s0)"
proof (intro conjI allI impI)
  assume "\<not> truthy (account_expiration user)"
  then show "validate_account_expiration E user s = (Inr (), s)"
    by (simp add: validate_account_expiration_def)
next
  fix stamp
  assume c: "stamp \<noteq> [] \<and> account_expiration user = JStr stamp
             \<or> (\<exists>others. account_expiration user = JArr (JStr stamp # others))"
    and "fromisoformat E (rstrip CHR ''Z'' stamp) = None"
  then show "validate_account_expiration E user s
             = (Inl (HTTPException 400 ''Invalid account expiration date format.''), s)"
    by (auto simp: validate_account_expiration_def)
next
  fix stamp t now w'
  assume c: "stamp \<noteq> [] \<and> account_expiration user = JStr stamp
             \<or> (\<exists>others. account_expiration user = JArr (JStr stamp # others))"
    and "fromisoformat E (rstrip CHR ''Z'' stamp) = Some (Naive t)
         \<and> utcnow E (world s) = (now, w')"
  then show "validate_account_expiration E user s
               = (if t < now
                  then Inl (HTTPException 403
                         ''The account has expired. Please contact the administrator.'')
                  else Inr (),
                  s\<lparr>world := w'\<rparr>)"
    by (auto simp: validate_account_expiration_def)
next
  fix uname password s0 got s1 disabled e s3
  assume a: "get_user E None (''username='' @ uname) s0 = Some (Inr got, s1)
          \<and> as_user got = Inr user
          \<and> is_user_temporarily_disabled E (id_field user) s1 = Some (Inr disabled, s)
          \<and> \<not> unwrapped_truthy disabled
          \<and> validate_account_expiration E user s = (Inl e, s3)"
  then have "login_prechecks E uname s0 = Some (Inl e, s3)"
    by (simp add: login_prechecks_def)
  then show "user_login E uname password s0 = Some (Inl e, s3)"
    and "grant_exchanges s3 = grant_exchanges s0"
    using user_login_failed_precheck by blast+
qed

theorem validate_account_expiration_checks_witness:
  "user_login
     (sample_env
        (alice_with [] (Some [(''account_expiration'', JArr [JStr ''2020-01-01T00:00:00Z''])]))
        no_events two_sessions (max_sessions_setting ''2'') tokens_granted)
     ''alice'' ''pw'' (sample_keycloak 1600000000)
   = Some (Inl (HTTPException 403
              ''The account has expired. Please contact the administrator.''),
           sample_after 1600000000 [user_get, events_get])
   \<and> grant_exchanges (sample_after 1600000000 [user_get, events_get]) = []
   \<and> validate_account_expiration
       (sample_env (alice_with [] (Some [(''account_expiration'', JStr ''tomorrow'')]))
          no_events two_sessions (max_sessions_setting ''2'') tokens_granted)
       (alice_with [] (Some [(''account_expiration'', JStr ''tomorrow'')]))
       (sample_keycloak 1600000000)
     = (Inl (HTTPException 400 ''Invalid account expiration date format.''),
        sample_keycloak 1600000000)
   \<and> validate_account_expiration
       (sample_env (alice_with [] (Some [(''locale'', JArr [JStr ''en''])]))
          no_events two_sessions (max_sessions_setting ''2'') tokens_granted)
       (alice_with [] (Some [(''locale'', JArr [JStr ''en''])]))
       (sample_keycloak 1600000000)
     = (Inr (), sample_keycloak 1600000000)"
proof -
  let ?a = "alice_with [] (Some [(''account_expiration'', JArr [JStr ''2020-01-01T00:00:00Z''])])"
  let ?E = "sample_env ?a (ok_response ''[]'' (JArr [])) two_sessions (max_sessions_setting ''2'')
              tokens_granted"
  let ?s2 = "sample_after 1600000000 [user_get, events_get]"
  let ?b = "alice_with [] (Some [(''account_expiration'', JStr ''tomorrow'')])"
  let ?Eb = "sample_env ?b no_events two_sessions (max_sessions_setting ''2'') tokens_granted"
  let ?c = "alice_with [] (Some [(''locale'', JArr [JStr ''en''])])"
  let ?Ec = "sample_env ?c no_events two_sessions (max_sessions_setting ''2'') tokens_granted"
  note steps = sample_steps [OF find_disabled_samples(2) two_sessions_json sample_int_of_str(1),
                             where a = ?a and body = "''[]''" and g = tokens_granted
                               and now = 1600000000]
  have attr: "account_expiration ?a = JArr (JStr ''2020-01-01T00:00:00Z'' # [])"
    by (simp add: account_expiration_def alice_with_def)
  have parsed: "fromisoformat ?E (rstrip CHR ''Z'' ''2020-01-01T00:00:00Z'')
                  = Some (Naive 1577836800)
                \<and> utcnow ?E (world ?s2) = (1600000000, 1600000000)"
    by (simp add: rstrip_def sample_fromisoformat sample_utcnow)
  have v: "validate_account_expiration ?E ?a ?s2
           = (Inl (HTTPException 403
                     ''The account has expired. Please contact the administrator.''), ?s2)"
    using validate_account_expiration_checks
            [of ?a ?E ?s2, THEN conjunct2, THEN conjunct1, rule_format,
             of "''2020-01-01T00:00:00Z''", THEN conjunct2, rule_format, OF _ parsed]
          attr
    by (simp add: sample_world)
  have d: "\<not> unwrapped_truthy (Direct False)"
    by (simp add: unwrapped_truthy_def)
  have login: "user_login ?E ''alice'' ''pw'' (sample_keycloak 1600000000)
               = Some (Inl (HTTPException 403
                     ''The account has expired. Please contact the administrator.''), ?s2)
               \<and> grant_exchanges ?s2 = grant_exchanges (sample_keycloak 1600000000)"
    using validate_account_expiration_checks
            [of ?a ?E ?s2, THEN conjunct2, THEN conjunct2, rule_format,
             of "''alice''" "sample_keycloak 1600000000" "Direct ?a"
                "sample_after 1600000000 [user_get]" "Direct False" _ ?s2 "''pw''"]
          steps(1) steps(2) [folded id_alice [of "[]"
              "Some [(''account_expiration'', JArr [JStr ''2020-01-01T00:00:00Z''])]"]]
          as_user_Direct d v
    by blast
  have unparsed: "validate_account_expiration ?Eb ?b (sample_keycloak 1600000000)
     = (Inl (HTTPException 400 ''Invalid account expiration date format.''),
        sample_keycloak 1600000000)"
    using validate_account_expiration_checks
            [of ?b ?Eb "sample_keycloak 1600000000", THEN conjunct2, THEN conjunct1, rule_format,
             of "''tomorrow''", THEN conjunct1, rule_format]
    by (simp add: account_expiration_def alice_with_def rstrip_def sample_env_def)
  have absent: "validate_account_expiration ?Ec ?c (sample_keycloak 1600000000)
     = (Inr (), sample_keycloak 1600000000)"
    using validate_account_expiration_checks
            [of ?c ?Ec "sample_keycloak 1600000000", THEN conjunct1, rule_format]
    by (simp add: account_expiration_def alice_with_def)
  from login unparsed absent show ?thesis
    by (simp add: no_events_def sample_no_grants)
qed

subsection \<open>Re-acquisition of the admin token\<close>

lemma expiring_valid:
  "public_key_cache s = Some k \<Longrightarrow>
   token_is_valid (expiring_env life) (JStr marks) None s
   = (Inr (\<not> length marks < world s), s\<lparr>world := Suc (world s)\<rparr>)"
  by (simp add: token_defs expiring_env_def)

lemma expiring_get_admin_token:
  "public_key_cache s = Some k \<Longrightarrow>
   get_admin_token (expiring_env life) s
   = (Inr (), s\<lparr>admin_token_field := JStr (replicate (world s + life (world s)) CHR ''I''),
                 world := Suc (world s),
                 calls := calls s @ [admin_grant_request s]\<rparr>)"
  by (simp add: get_admin_token_def perform_def expiring_env_def set_admin_token_def
           decode_token_def public_key_def default_options_def admin_claims_def claims_get_def)

lemma expiring_step_valid:
  assumes "public_key_cache s = Some k" and "admin_token_field s = JStr marks"
    and "\<not> length marks < world s"
  shows "admin_token (expiring_env life) s = Some (Inr (JStr marks), s\<lparr>world := Suc (world s)\<rparr>)"
  by (subst admin_token.simps) (simp add: expiring_valid [OF assms(1)] assms)

lemma expiring_step_expired:
  assumes "public_key_cache s = Some k" and "admin_token_field s = JStr marks"
    and "length marks < world s"
  shows "admin_token (expiring_env life) s
         = admin_token (expiring_env life)
             (s\<lparr>admin_token_field :=
                   JStr (replicate (Suc (world s) + life (Suc (world s))) CHR ''I''),
                world := Suc (Suc (world s)),
                calls := calls s @ [admin_grant_request s]\<rparr>)"
  by (subst admin_token.simps)
     (simp add: expiring_valid [OF assms(1)] assms expiring_get_admin_token
           admin_grant_request_def)

text \<open>
  Claim C8, as stated, fails at the short-lived provider whose tokens have no lifetime
  before second 4: the accessor finds the cached token expired, acquires a token that the
  setter accepts, finds it expired in turn, acquires a second one and returns that one.
  Two re-acquisitions have been made in one reading of the admin token.
\<close>

theorem admin_token_counterexample:
  "map_option fst (admin_token (expiring_env late_life) expiring_keycloak)
   = Some (Inr (JStr ''IIIIIIIIIIIIII''))
   \<and> map_option (calls \<circ> snd) (admin_token (expiring_env late_life) expiring_keycloak)
   = Some [admin_grant_request expiring_keycloak, admin_grant_request expiring_keycloak]"
proof -
  let ?s1 = "expiring_keycloak\<lparr>admin_token_field := JStr ''II'', world := 3,
               calls := [admin_grant_request expiring_keycloak]\<rparr>"
  let ?s2 = "expiring_keycloak\<lparr>admin_token_field := JStr ''IIIIIIIIIIIIII'', world := 5,
               calls := [admin_grant_request expiring_keycloak,
                         admin_grant_request expiring_keycloak]\<rparr>"
  have "admin_token (expiring_env late_life) expiring_keycloak
        = admin_token (expiring_env late_life) ?s1"
    using expiring_step_expired [of expiring_keycloak "''K''" "[]" late_life]
    by (simp add: expiring_keycloak_def late_life_def admin_grant_request_def
             numeral_2_eq_2 numeral_3_eq_3)
  also have "\<dots> = admin_token (expiring_env late_life) ?s2"
    using expiring_step_expired [of ?s1 "''K''" "''II''" late_life]
    by (simp add: expiring_keycloak_def late_life_def admin_grant_request_def
             eval_nat_numeral)
  also have "\<dots> = Some (Inr (JStr ''IIIIIIIIIIIIII''), ?s2\<lparr>world := 6\<rparr>)"
    using expiring_step_valid [of ?s2 "''K''" "''IIIIIIIIIIIIII''" late_life]
    by (simp add: expiring_keycloak_def)
  finally show ?thesis
    by (simp add: expiring_keycloak_def)
qed

text \<open>
  With tokens that have no lifetime at all, the accessor never returns: every token it
  acquires is accepted by the setter and has expired when the accessor looks at it a
  second later. (The interpreter's own limit on the depth of recursion is not part of
  the model.)
\<close>

lemma admin_token_unbounded:
  assumes "public_key_cache s = Some k" and "admin_token_field s = JStr marks"
    and "length marks < world s"
  shows "admin_token (expiring_env no_life) s = None"
proof (rule ccontr)
  assume "admin_token (expiring_env no_life) s \<noteq> None"
  then obtain y where y: "admin_token (expiring_env no_life) s = Some y" by auto
  have "\<not> (E = expiring_env no_life \<and> public_key_cache s \<noteq> None
            \<and> (\<exists>marks. admin_token_field s = JStr marks \<and> length marks < world s))"
    if "admin_token E s = Some y" for E :: "nat env" and s y
  proof (rule admin_token.raw_induct
           [where P = "\<lambda>E s y. \<not> (E = expiring_env no_life \<and> public_key_cache s \<noteq> None
              \<and> (\<exists>marks. admin_token_field s = JStr marks \<and> length marks < world s))",
            OF _ that])
    fix f and E :: "nat env" and s y
    assume IH: "\<And>E s y. f E s = Some y \<Longrightarrow>
                 \<not> (E = expiring_env no_life \<and> public_key_cache s \<noteq> None
                    \<and> (\<exists>marks. admin_token_field s = JStr marks \<and> length marks < world s))"
      and body: "(case token_is_valid E (admin_token_field s) None s of
                    (Inl e, s1) \<Rightarrow> Some (Inl e, s1)
                  | (Inr valid, s1) \<Rightarrow>
                      if valid then Some (Inr (admin_token_field s1), s1)
                      else (case get_admin_token E s1 of
                              (Inl e, s2) \<Rightarrow> Some (Inl e, s2)
                            | (Inr u, s2) \<Rightarrow> f E s2)) = Some y"
    show "\<not> (E = expiring_env no_life \<and> public_key_cache s \<noteq> None
             \<and> (\<exists>marks. admin_token_field s = JStr marks \<and> length marks < world s))"
    proof
      assume inv: "E = expiring_env no_life \<and> public_key_cache s \<noteq> None
             \<and> (\<exists>marks. admin_token_field s = JStr marks \<and> length marks < world s)"
      then obtain k marks where k: "public_key_cache s = Some k"
        and m: "admin_token_field s = JStr marks" "length marks < world s"
        by auto
      let ?s2 = "s\<lparr>admin_token_field := JStr (replicate (Suc (world s)) CHR ''I''),
                   world := Suc (Suc (world s)),
                   calls := calls s @ [admin_grant_request s]\<rparr>"
      from body inv k m have "f (expiring_env no_life) ?s2 = Some y"
        by (simp add: expiring_valid [OF k] expiring_get_admin_token no_life_def
                 admin_grant_request_def)
      from IH [OF this] k show False by simp
    qed
  qed
  from this [OF y] assms show False by simp
qed

text \<open>
  Claim C8, amended. When the cached admin token verifies, the accessor returns it and
  acquires nothing. When verification itself raises, or when the cached token fails
  verification and the one re-acquisition that follows raises, the accessor raises that
  error and makes no further attempt. When the re-acquisition succeeds, the accessor
  starts over on the new state: it returns the new token if that token now verifies
  (one re-acquisition in all), and otherwise re-acquires again; nothing bounds the number
  of attempts.
\<close>

theorem admin_token_reacquisition:
  "(\<forall>s1. token_is_valid E (admin_token_field s) None s = (Inr True, s1) \<longrightarrow>
       admin_token E s = Some (Inr (admin_token_field s1), s1))
   \<and> (\<forall>e s1. token_is_valid E (admin_token_field s) None s = (Inl e, s1) \<longrightarrow>
       admin_token E s = Some (Inl e, s1))
   \<and> (\<forall>s1 e s2. token_is_valid E (admin_token_field s) None s = (Inr False, s1)
                 \<and> get_admin_token E s1 = (Inl e, s2) \<longrightarrow>
       admin_token E s = Some (Inl e, s2))
   \<and> (\<forall>s1 s2. token_is_valid E (admin_token_field s) None s = (Inr False, s1)
               \<and> get_admin_token E s1 = (Inr (), s2) \<longrightarrow>
       admin_token E s = admin_token E s2
       \<and> (\<forall>s3. token_is_valid E (admin_token_field s2) None s2 = (Inr True, s3) \<longrightarrow>
             admin_token E s = Some (Inr (admin_token_field s3), s3)))"
proof -
  have valid: "admin_token E s = Some (Inr (admin_token_field s1), s1)"
    if "token_is_valid E (admin_token_field s) None s = (Inr True, s1)" for s s1
    using that by (subst admin_token.simps) simp
  have raised: "admin_token E s = Some (Inl e, s1)"
    if "token_is_valid E (admin_token_field s) None s = (Inl e, s1)" for e s1
    using that by (subst admin_token.simps) simp
  have failed: "admin_token E s = Some (Inl e, s2)"
    if "token_is_valid E (admin_token_field s) None s = (Inr False, s1)"
      and "get_admin_token E s1 = (Inl e, s2)" for s1 e s2
    using that by (subst admin_token.simps) simp
  have again: "admin_token E s = admin_token E s2"
    if "token_is_valid E (admin_token_field s) None s = (Inr False, s1)"
      and "get_admin_token E s1 = (Inr (), s2)" for s1 s2
    using that by (subst admin_token.simps) simp
  have renewed: "admin_token E s = Some (Inr (admin_token_field s3), s3)"
    if "token_is_valid E (admin_token_field s) None s = (Inr False, s1)"
      and "get_admin_token E s1 = (Inr (), s2)"
      and "token_is_valid E (admin_token_field s2) None s2 = (Inr True, s3)" for s1 s2 s3
    using again [OF that(1,2)] valid [OF that(3)] by simp
  show ?thesis
    using valid [of s] raised failed again renewed by blast
qed

lemma sample_token_is_valid:
  "public_key_cache s = Some ''K'' \<Longrightarrow>
   token_is_valid (sample_env a ev se st g) (JStr ''A'') None s = (Inr True, s)"
  "public_key_cache s = Some ''K'' \<Longrightarrow>
   token_is_valid (sample_env a ev se st g) (JStr ''stale'') None s = (Inr False, s)"
  "public_key_cache s = Some ''rotated'' \<Longrightarrow>
   token_is_valid (sample_env a ev se st g) tok None s = (Inr False, s)"
  by (simp_all add: token_defs sample_env_def)

lemma sample_get_admin_token:
  "public_key_cache s = Some ''K'' \<Longrightarrow> url (admin_grant_request s) = ''kc/token'' \<Longrightarrow>
   get_admin_token (sample_env a ev se st g) s
   = (Inr (), s\<lparr>admin_token_field := JStr ''A'', calls := calls s @ [admin_grant_request s]\<rparr>)"
  "public_key_cache s = Some ''rotated'' \<Longrightarrow> url (admin_grant_request s) = ''kc/token'' \<Longrightarrow>
   get_admin_token (sample_env a ev se st g) s
   = (Inl JWTError, s\<lparr>calls := calls s @ [admin_grant_request s]\<rparr>)"
  by (simp_all add: get_admin_token_def perform_alt sample_env_def is_password_grant_def
        admin_grant_request_def set_admin_token_def decode_token_def public_key_def
        default_options_def admin_claims_def claims_get_def)

theorem admin_token_reacquisition_witness:
  "admin_token
     (sample_env (alice_with [] None) no_events two_sessions (max_sessions_setting ''2'')
        tokens_granted)
     (sample_keycloak 1600000000)
   = Some (Inr (JStr ''A''), sample_keycloak 1600000000)
   \<and> admin_token
     (sample_env (alice_with [] None) no_events two_sessions (max_sessions_setting ''2'')
        tokens_granted)
     ((sample_keycloak 1600000000)\<lparr>admin_token_field := JStr ''stale''\<rparr>)
   = Some (Inr (JStr ''A''),
           (sample_keycloak 1600000000)
             \<lparr>calls := [admin_grant_request (sample_keycloak 1600000000)]\<rparr>)
   \<and> admin_token
     (sample_env (alice_with [] None) no_events two_sessions (max_sessions_setting ''2'')
        tokens_granted)
     ((sample_keycloak 1600000000)\<lparr>public_key_cache := Some ''rotated''\<rparr>)
   = Some (Inl JWTError,
           (sample_keycloak 1600000000)
             \<lparr>public_key_cache := Some ''rotated'',
              calls := [admin_grant_request (sample_keycloak 1600000000)]\<rparr>)
   \<and> admin_token
     (sample_env (alice_with [] None) no_events two_sessions (max_sessions_setting ''2'')
        tokens_granted)
     ((sample_keycloak 1600000000)\<lparr>public_key_cache := None\<rparr>)
   = Some (Inl RequestException,
           (sample_keycloak 1600000000)
             \<lparr>public_key_cache := None,
              calls := [\<lparr>http_method = ''GET'', url = ''kc/realms/r'', headers = [],
                         params = [], data = NoData\<rparr>]\<rparr>)"
proof -
  let ?E = "sample_env (alice_with [] None) no_events two_sessions (max_sessions_setting ''2'')
              tokens_granted"
  let ?s = "sample_keycloak 1600000000"
  let ?stale = "?s\<lparr>admin_token_field := JStr ''stale''\<rparr>"
  let ?fresh = "?s\<lparr>calls := [admin_grant_request ?s]\<rparr>"
  let ?rotated = "?s\<lparr>public_key_cache := Some ''rotated''\<rparr>"
  have k: "public_key_cache ?s = Some ''K''" "public_key_cache ?stale = Some ''K''"
    "public_key_cache ?fresh = Some ''K''" "public_key_cache ?rotated = Some ''rotated''"
    by (simp_all add: sample_keycloak_def)
  have u: "url (admin_grant_request ?stale) = ''kc/token''"
    "url (admin_grant_request ?rotated) = ''kc/token''"
    by (simp_all add: sample_keycloak_def admin_grant_request_def)
  have held: "admin_token ?E ?s = Some (Inr (JStr ''A''), ?s)"
    using admin_token_reacquisition [of ?E ?s, THEN conjunct1, rule_format, of ?s]
          sample_token_is_valid(1) [OF k(1), of "alice_with [] None" no_events two_sessions
                                       "max_sessions_setting ''2''" tokens_granted]
    by (simp add: sample_keycloak_def)
  have stale: "token_is_valid ?E (admin_token_field ?stale) None ?stale = (Inr False, ?stale)
               \<and> get_admin_token ?E ?stale = (Inr (), ?fresh)"
    using sample_token_is_valid(2) [OF k(2)] sample_get_admin_token(1) [OF k(2) u(1)]
    by (simp add: sample_keycloak_def admin_grant_request_def)
  have fresh: "token_is_valid ?E (admin_token_field ?fresh) None ?fresh = (Inr True, ?fresh)"
    using sample_token_is_valid(1) [OF k(3)]
    by (simp add: sample_keycloak_def)
  have renewed: "admin_token ?E ?stale = Some (Inr (JStr ''A''), ?fresh)"
    using admin_token_reacquisition
            [of ?E ?stale, THEN conjunct2, THEN conjunct2, THEN conjunct2, rule_format,
             OF stale, THEN conjunct2, rule_format, OF fresh]
    by (simp add: sample_keycloak_def)
  have rotated: "token_is_valid ?E (admin_token_field ?rotated) None ?rotated
                   = (Inr False, ?rotated)
                 \<and> get_admin_token ?E ?rotated
                   = (Inl JWTError, ?rotated\<lparr>calls := [admin_grant_request ?s]\<rparr>)"
    using sample_token_is_valid(3) [OF k(4)] sample_get_admin_token(2) [OF k(4) u(2)]
    by (simp add: sample_keycloak_def admin_grant_request_def)
  have refused: "admin_token ?E ?rotated
                 = Some (Inl JWTError, ?rotated\<lparr>calls := [admin_grant_request ?s]\<rparr>)"
    using admin_token_reacquisition
            [of ?E ?rotated, THEN conjunct2, THEN conjunct2, THEN conjunct1, rule_format,
             OF rotated]
    by simp
  let ?unkeyed = "?s\<lparr>public_key_cache := None\<rparr>"
  let ?asked = "?unkeyed\<lparr>calls := [\<lparr>http_method = ''GET'', url = ''kc/realms/r'',
                                      headers = [], params = [], data = NoData\<rparr>]\<rparr>"
  have "token_is_valid ?E (admin_token_field ?unkeyed) None ?unkeyed
        = (Inl RequestException, ?asked)"
    by (simp add: token_defs perform_alt realm_uri_def sample_env_def sample_keycloak_def
             is_password_grant_def)
  then have unreachable: "admin_token ?E ?unkeyed = Some (Inl RequestException, ?asked)"
    using admin_token_reacquisition
            [of ?E ?unkeyed, THEN conjunct2, THEN conjunct1, rule_format]
    by blast
  from held renewed refused unreachable show ?thesis by simp
qed

end
